theory Spec2Isabelle
  imports Complex_Main "HOL-Library.AList" "HOL-Library.Multiset"
begin

section \<open>Graph model (app/schemas/workflow.py)\<close>

text \<open>
  \<^verbatim>\<open>NodeData\<close>, \<^verbatim>\<open>WorkflowNode\<close> and \<^verbatim>\<open>WorkflowEdge\<close> are pydantic models; every
  \<^verbatim>\<open>Optional\<close> field is an \<open>option\<close>. The field \<^verbatim>\<open>id\<close> is written \<open>nid\<close>/\<open>eid\<close> and
  \<^verbatim>\<open>type\<close> is written \<open>ntype\<close> (both names are taken in HOL). \<^verbatim>\<open>NodeData\<close> declares
  exactly the ten fields below; it has no \<^verbatim>\<open>maxTokens\<close> field.
\<close>

record NodeData =
  label :: string
  placeholder :: "string option"
  model :: "string option"
  collection :: "string option"
  topK :: "int option"
  threshold :: "real option"
  format :: "string option"
  streaming :: "bool option"
  use_web_search :: "bool option"
  webSearchResults :: "int option"

record WorkflowNode =
  nid :: string
  ntype :: string
  position :: "(string \<times> real) list"
  data :: NodeData

record WorkflowEdge =
  eid :: string
  source :: string
  target :: string
  sourceHandle :: "string option"
  targetHandle :: "string option"

text \<open>The values of the enum \<^verbatim>\<open>ComponentType\<close>.\<close>

definition USER_QUERY :: string where "USER_QUERY = ''input''"
definition KNOWLEDGE_BASE :: string where "KNOWLEDGE_BASE = ''knowledge''"
definition LLM_ENGINE :: string where "LLM_ENGINE = ''llm''"
definition OUTPUT :: string where "OUTPUT = ''output''"

text \<open>
  The validator's error strings, one constructor per message:
  \<^item> \<open>MissingComponents S\<close>: \<^verbatim>\<open>"Missing required components: " + ", ".join(S)\<close>
    (\<open>S\<close> is a Python set, joined in its iteration order);
  \<^item> \<open>OnlyOneUserQuery\<close>: \<^verbatim>\<open>"Only one User Query component is allowed"\<close>;
  \<^item> \<open>OnlyOneOutput\<close>: \<^verbatim>\<open>"Only one Output component is allowed"\<close>;
  \<^item> \<open>InvalidConnections\<close>:
    \<^verbatim>\<open>"Invalid workflow connections - cannot determine execution order"\<close>;
  \<^item> \<open>ModelRequired i\<close>: \<^verbatim>\<open>"LLM Engine node {i}: Model is required"\<close>;
  \<^item> \<open>CollectionRequired i\<close>:
    \<^verbatim>\<open>"Knowledge Base node {i}: Collection name is required"\<close>;
  \<^item> \<open>TopKRange i\<close>: \<^verbatim>\<open>"Knowledge Base node {i}: TopK must be between 1 and 50"\<close>.
\<close>

datatype validation_error =
    MissingComponents "string set"
  | OnlyOneUserQuery
  | OnlyOneOutput
  | InvalidConnections
  | ModelRequired string
  | CollectionRequired string
  | TopKRange string

record WorkflowValidation =
  is_valid :: bool
  errors :: "validation_error list"
  warnings :: "string list"
  execution_order :: "string list"

section \<open>Python dictionaries and truthiness\<close>

text \<open>
  A \<^verbatim>\<open>dict\<close> keeps insertion order: it is an association list with distinct keys, and
  \<^verbatim>\<open>d[k] = v\<close> is \<open>AList.update\<close> (a present key keeps its place, a new key goes last).
\<close>

type_synonym ('k, 'v) dict = "('k \<times> 'v) list"

definition dict_values :: "('k, 'v) dict \<Rightarrow> 'v list" where
  "dict_values d = map snd d"

text \<open>\<^verbatim>\<open>x or d\<close> on an optional string or integer: \<^verbatim>\<open>None\<close>, \<^verbatim>\<open>""\<close> and \<^verbatim>\<open>0\<close> are falsy.\<close>

definition truthy_str :: "string option \<Rightarrow> bool" where
  "truthy_str s = (case s of None \<Rightarrow> False | Some v \<Rightarrow> v \<noteq> [])"

definition str_or :: "string option \<Rightarrow> string \<Rightarrow> string" where
  "str_or s d = (case s of None \<Rightarrow> d | Some v \<Rightarrow> if v = [] then d else v)"

definition int_or :: "int option \<Rightarrow> int \<Rightarrow> int" where
  "int_or i d = (case i of None \<Rightarrow> d | Some v \<Rightarrow> if v = 0 then d else v)"

section \<open>Execution order (\<^verbatim>\<open>_determine_execution_order\<close>)\<close>

type_synonym graph = "(string, string list) dict"

text \<open>\<^verbatim>\<open>graph.get(k, [])\<close>\<close>

definition graph_get :: "graph \<Rightarrow> string \<Rightarrow> string list" where
  "graph_get g k = (case map_of g k of None \<Rightarrow> [] | Some ts \<Rightarrow> ts)"

text \<open>\<^verbatim>\<open>graph = {node.id: [] for node in nodes}\<close>\<close>

definition init_graph :: "WorkflowNode list \<Rightarrow> graph" where
  "init_graph nodes = fold (\<lambda>node g. AList.update (nid node) [] g) nodes []"

text \<open>
  \<^verbatim>\<open>for edge in edges: if edge.source in graph: graph[edge.source].append(edge.target)\<close>
\<close>

definition add_edge :: "WorkflowEdge \<Rightarrow> graph \<Rightarrow> graph" where
  "add_edge edge g =
     (if map_of g (source edge) \<noteq> None
      then AList.update (source edge) (graph_get g (source edge) @ [target edge]) g
      else g)"

definition build_graph :: "WorkflowNode list \<Rightarrow> WorkflowEdge list \<Rightarrow> graph" where
  "build_graph nodes edges = fold add_edge edges (init_graph nodes)"

text \<open>The first node of type \<^verbatim>\<open>"input"\<close> in listing order (the \<^verbatim>\<open>for ... break\<close> loop).\<close>

definition find_input_node :: "WorkflowNode list \<Rightarrow> WorkflowNode option" where
  "find_input_node nodes = find (\<lambda>node. ntype node = USER_QUERY) nodes"

text \<open>Every id that can ever enter the queue: the keys and the targets of the graph.\<close>

definition graph_ids :: "graph \<Rightarrow> string set" where
  "graph_ids g = fst ` set g \<union> (\<Union>kv \<in> set g. set (snd kv))"

text \<open>
  The \<^verbatim>\<open>while queue:\<close> loop. The state is \<^verbatim>\<open>visited\<close>, \<^verbatim>\<open>order\<close> and the deque;
  the result is the state when the deque is empty.
\<close>

function bfs :: "graph \<Rightarrow> string set \<Rightarrow> string list \<Rightarrow> string list \<Rightarrow> string set \<times> string list" where
  "bfs g visited order [] = (visited, order)"
| "bfs g visited order (current_node # queue) =
     (if current_node \<in> visited then bfs g visited order queue
      else bfs g (insert current_node visited) (order @ [current_node])
             (queue @ filter (\<lambda>neighbor. neighbor \<notin> insert current_node visited)
                        (graph_get g current_node)))"
  by pat_completeness auto

termination bfs
proof (relation "(\<lambda>(g, visited, order, queue). card (graph_ids g - visited)) <*mlex*>
                 measure (\<lambda>(g, visited, order, queue). length queue)")
  show "wf ((\<lambda>(g, visited, order, queue). card (graph_ids g - visited)) <*mlex*>
            measure (\<lambda>(g, visited, order, queue). length queue))"
    by (simp add: wf_mlex)
next
  fix g :: graph and visited :: "string set" and order queue :: "string list" and current_node
  assume "current_node \<in> visited"
  then show "((g, visited, order, queue), (g, visited, order, current_node # queue))
      \<in> (\<lambda>(g, visited, order, queue). card (graph_ids g - visited)) <*mlex*>
         measure (\<lambda>(g, visited, order, queue). length queue)"
    by (simp add: mlex_iff)
next
  fix g :: graph and visited :: "string set" and order queue :: "string list" and current_node
  assume nv: "current_node \<notin> visited"
  show "((g, insert current_node visited, order @ [current_node],
           queue @ filter (\<lambda>neighbor. neighbor \<notin> insert current_node visited)
                     (graph_get g current_node)),
          (g, visited, order, current_node # queue))
      \<in> (\<lambda>(g, visited, order, queue). card (graph_ids g - visited)) <*mlex*>
         measure (\<lambda>(g, visited, order, queue). length queue)"
  proof (cases "current_node \<in> graph_ids g")
    case True
    then have "graph_ids g - insert current_node visited \<subset> graph_ids g - visited"
      using nv by auto
    then have "card (graph_ids g - insert current_node visited) < card (graph_ids g - visited)"
      by (simp add: graph_ids_def psubset_card_mono)
    then show ?thesis by (simp add: mlex_iff)
  next
    case False
    then have "current_node \<notin> fst ` set g" by (simp add: graph_ids_def)
    then have "map_of g current_node = None" by (simp add: map_of_eq_None_iff)
    then have "graph_get g current_node = []" by (simp add: graph_get_def)
    moreover have "graph_ids g - insert current_node visited = graph_ids g - visited"
      using False by auto
    ultimately show ?thesis by (simp add: mlex_iff)
  qed
qed

text \<open>
  \<^verbatim>\<open>_determine_execution_order\<close>: no input node gives \<^verbatim>\<open>[]\<close>; otherwise the BFS order from
  the input node's id, then every listed node whose id is not in \<^verbatim>\<open>visited\<close>, in listing
  order.
\<close>

definition determine_execution_order :: "WorkflowNode list \<Rightarrow> WorkflowEdge list \<Rightarrow> string list" where
  "determine_execution_order nodes edges =
     (let graph = build_graph nodes edges in
      case find_input_node nodes of
        None \<Rightarrow> []
      | Some input_node \<Rightarrow>
          (case bfs graph {} [] [nid input_node] of
             (visited, order) \<Rightarrow>
               order @ map nid (filter (\<lambda>node. nid node \<notin> visited) nodes)))"

section \<open>Validation (\<^verbatim>\<open>_validate_node_config\<close>, \<^verbatim>\<open>validate_workflow\<close>)\<close>

definition validate_node_config :: "WorkflowNode \<Rightarrow> validation_error list" where
  "validate_node_config node =
     (if ntype node = LLM_ENGINE then
        (if \<not> truthy_str (model (data node)) then [ModelRequired (nid node)] else [])
      else if ntype node = KNOWLEDGE_BASE then
        (if \<not> truthy_str (collection (data node)) then [CollectionRequired (nid node)] else [])
        @ (case topK (data node) of
             None \<Rightarrow> []
           | Some k \<Rightarrow> if k < 1 \<or> k > 50 then [TopKRange (nid node)] else [])
      else [])"

text \<open>
  The errors appended before the order is computed: missing required types, then the two
  cardinality checks.
\<close>

definition required_types :: "string set" where
  "required_types = {USER_QUERY, LLM_ENGINE, OUTPUT}"

definition structural_errors :: "WorkflowNode list \<Rightarrow> validation_error list" where
  "structural_errors nodes =
     (let node_types = set (map ntype nodes);
          input_nodes = filter (\<lambda>node. ntype node = USER_QUERY) nodes;
          output_nodes = filter (\<lambda>node. ntype node = OUTPUT) nodes
      in (if \<not> required_types \<subseteq> node_types
          then [MissingComponents (required_types - node_types)] else [])
         @ (if length input_nodes > 1 then [OnlyOneUserQuery] else [])
         @ (if length output_nodes > 1 then [OnlyOneOutput] else []))"

text \<open>
  \<^verbatim>\<open>validate_workflow\<close>. The body of its \<^verbatim>\<open>try\<close> reads declared fields, compares and
  appends only, so nothing in it raises on nodes and edges of the declared types and the
  \<^verbatim>\<open>except\<close> branch is not taken.
\<close>

definition validate_workflow :: "WorkflowNode list \<Rightarrow> WorkflowEdge list \<Rightarrow> WorkflowValidation" where
  "validate_workflow nodes edges =
     (let errors0 = structural_errors nodes;
          order = (if errors0 = [] then determine_execution_order nodes edges else []);
          errors1 = errors0 @ (if errors0 = [] \<and> order = [] then [InvalidConnections] else []);
          errors2 = errors1 @ concat (map validate_node_config nodes)
      in \<lparr>is_valid = (length errors2 = 0), errors = errors2, warnings = [],
          execution_order = order\<rparr>)"

section \<open>Execution context, results and capabilities\<close>

text \<open>
  A retrieved document is a dictionary; the engine reads its \<^verbatim>\<open>filename\<close> and
  \<^verbatim>\<open>content\<close> entries only, taken here to be strings.
\<close>

type_synonym doc = "(string, string) dict"

record metadata =
  md_query :: string
  md_context_used :: bool
  md_format :: string

text \<open>
  The result dictionaries, by their \<^verbatim>\<open>"type"\<close> entry. A key that the source leaves out of
  the dictionary is \<open>None\<close>: \<^verbatim>\<open>"status"\<close> is present only in the skipped knowledge result
  (whose \<^verbatim>\<open>"query"\<close> is \<^verbatim>\<open>None\<close>), \<^verbatim>\<open>"metadata"\<close> only in the json output.
\<close>

datatype result =
    UserQuery (uq_query: string)
  | KnowledgeBase (kb_query: "string option") (kb_results: "doc list") (kb_status: "string option")
  | LlmResponse (lr_query: string) (lr_response: string) (lr_context_used: bool)
      (lr_web_search_used: "bool option")
  | Output (out_response: string) (out_metadata: "metadata option")

fun rtype :: "result \<Rightarrow> string" where
  "rtype (UserQuery _) = ''user_query''"
| "rtype (KnowledgeBase _ _ _) = ''knowledge_base''"
| "rtype (LlmResponse _ _ _ _) = ''llm_response''"
| "rtype (Output _ _) = ''output''"

record step =
  step_node_id :: string
  step_node_type :: string
  step_result :: result
  step_timestamp :: real

text \<open>The payload \<^verbatim>\<open>input_data\<close> is a dictionary; its values are taken to be strings.\<close>

record ExecutionContext =
  input_data :: "(string, string) dict"
  intermediate_results :: "(string, result) dict"
  execution_log :: "step list"
  start_time :: real

text \<open>
  Every exception the engine can meet, by raise site:
  \<^item> \<open>InvalidWorkflow es\<close>: \<^verbatim>\<open>ValueError("Invalid workflow: " + ", ".join(es))\<close>;
  \<^item> \<open>KeyError i\<close>: \<^verbatim>\<open>node_map[i]\<close> on an id that is no node's;
  \<^item> \<open>NoQueryProvided\<close>: \<^verbatim>\<open>ValueError("No query provided")\<close>;
  \<^item> \<open>NoQueryFound\<close>: \<^verbatim>\<open>ValueError("No query found for LLM processing")\<close>;
  \<^item> \<open>NoLlmResponse\<close>: \<^verbatim>\<open>ValueError("No LLM response found for output")\<close>;
  \<^item> \<open>UnknownComponentType t\<close>: \<^verbatim>\<open>ValueError("Unknown component type: {t}")\<close>;
  \<^item> \<open>AttributeError a\<close>: reading an attribute \<open>a\<close> that \<^verbatim>\<open>NodeData\<close> does not declare;
  \<^item> \<open>ServiceError m\<close>: an exception with message \<open>m\<close> raised by
    \<^verbatim>\<open>LLMService.generate_response\<close>.
\<close>

datatype exec_error =
    InvalidWorkflow "validation_error list"
  | KeyError string
  | NoQueryProvided
  | NoQueryFound
  | NoLlmResponse
  | UnknownComponentType string
  | AttributeError string
  | ServiceError string

text \<open>
  The two external calls, by their keyword arguments. \<^verbatim>\<open>VectorService.search\<close> catches every
  exception and returns a list; \<^verbatim>\<open>LLMService.generate_response\<close> re-raises.
\<close>

record search_call =
  sc_query :: string
  sc_collection_name :: string
  sc_top_k :: int
  sc_threshold :: real

record generate_call =
  gc_query :: string
  gc_context :: string
  gc_model :: string
  gc_max_tokens :: int
  gc_use_web_search :: "bool option"

record services =
  vector_search :: "search_call \<Rightarrow> doc list"
  generate_response :: "generate_call \<Rightarrow> exec_error + string"

section \<open>Node behaviours\<close>

text \<open>\<^verbatim>\<open>context.input_data.get("query")\<close>\<close>

definition payload_query :: "ExecutionContext \<Rightarrow> string option" where
  "payload_query context = map_of (input_data context) ''query''"

text \<open>\<^verbatim>\<open>_execute_user_query\<close>\<close>

definition execute_user_query :: "WorkflowNode \<Rightarrow> ExecutionContext \<Rightarrow> exec_error + result" where
  "execute_user_query node context =
     (let query = (case payload_query context of None \<Rightarrow> [] | Some q \<Rightarrow> q) in
      if query = [] then Inl NoQueryProvided else Inr (UserQuery query))"

text \<open>
  The scans of \<^verbatim>\<open>context.intermediate_results.values()\<close>: a loop that assigns and
  \<^verbatim>\<open>break\<close>s keeps the first entry with the tag, a loop that assigns without
  \<^verbatim>\<open>break\<close> keeps the last one.
\<close>

definition first_tagged :: "string \<Rightarrow> ExecutionContext \<Rightarrow> result option" where
  "first_tagged tag context =
     find (\<lambda>result. rtype result = tag) (dict_values (intermediate_results context))"

definition last_tagged :: "string \<Rightarrow> ExecutionContext \<Rightarrow> result option" where
  "last_tagged tag context =
     find (\<lambda>result. rtype result = tag) (rev (dict_values (intermediate_results context)))"

text \<open>
  \<^verbatim>\<open>if not query_data and context.input_data.get("query"): query_data = {...}\<close>, then
  \<^verbatim>\<open>query_data["query"]\<close>: the query of the entry found, else a truthy payload query.
\<close>

definition resolve_query :: "result option \<Rightarrow> ExecutionContext \<Rightarrow> string option" where
  "resolve_query query_data context =
     (case query_data of
        Some r \<Rightarrow> Some (uq_query r)
      | None \<Rightarrow> if truthy_str (payload_query context) then payload_query context else None)"

text \<open>\<^verbatim>\<open>_execute_knowledge_base\<close>\<close>

definition execute_knowledge_base ::
  "services \<Rightarrow> WorkflowNode \<Rightarrow> ExecutionContext \<Rightarrow> exec_error + result" where
  "execute_knowledge_base svc node context =
     (case resolve_query (first_tagged ''user_query'' context) context of
        None \<Rightarrow> Inr (KnowledgeBase None [] (Some ''skipped''))
      | Some query \<Rightarrow>
          (let threshold = 3 / 10;
               search_results = vector_search svc
                 \<lparr>sc_query = query,
                  sc_collection_name = str_or (collection (data node)) ''default'',
                  sc_top_k = int_or (topK (data node)) 5,
                  sc_threshold = threshold\<rparr>
           in Inr (KnowledgeBase (Some query) search_results None)))"

text \<open>
  One line of the context text:
  \<^verbatim>\<open>f"Document: {doc.get('filename', 'Unknown')}\nContent: {doc.get('content', '')}"\<close>
\<close>

definition doc_text :: "doc \<Rightarrow> string" where
  "doc_text d =
     ''Document: '' @ (case map_of d ''filename'' of None \<Rightarrow> ''Unknown'' | Some f \<Rightarrow> f)
     @ [CHR 0x0A] @ ''Content: '' @ (case map_of d ''content'' of None \<Rightarrow> [] | Some c \<Rightarrow> c)"

text \<open>\<^verbatim>\<open>"\n".join(...)\<close>\<close>

fun join_lines :: "string list \<Rightarrow> string" where
  "join_lines [] = []"
| "join_lines [l] = l"
| "join_lines (l # ls) = l @ [CHR 0x0A] @ join_lines ls"

definition context_text_of :: "result option \<Rightarrow> string" where
  "context_text_of knowledge_data =
     (case knowledge_data of
        None \<Rightarrow> []
      | Some k \<Rightarrow> if kb_results k = [] then [] else join_lines (map doc_text (kb_results k)))"

text \<open>
  \<^verbatim>\<open>node.data.maxTokens\<close>: \<^verbatim>\<open>NodeData\<close> declares no such field and does not allow
  extra fields, so reading it on any \<^verbatim>\<open>NodeData\<close> value raises \<^verbatim>\<open>AttributeError\<close>.
\<close>

definition maxTokens :: "NodeData \<Rightarrow> exec_error + int option" where
  "maxTokens d = Inl (AttributeError ''maxTokens'')"

text \<open>
  \<^verbatim>\<open>_execute_llm_engine\<close>. The keyword arguments of the call are evaluated before the call,
  in order; \<^verbatim>\<open>max_tokens=node.data.maxTokens or 1000\<close> is among them.
\<close>

definition execute_llm_engine ::
  "services \<Rightarrow> WorkflowNode \<Rightarrow> ExecutionContext \<Rightarrow> exec_error + result" where
  "execute_llm_engine svc node context =
     (case resolve_query (last_tagged ''user_query'' context) context of
        None \<Rightarrow> Inl NoQueryFound
      | Some query \<Rightarrow>
          (let context_text = context_text_of (last_tagged ''knowledge_base'' context);
               use_web_search = use_web_search (data node);
               model = ''gpt-5-nano-2025-08-07''
           in case maxTokens (data node) of
                Inl e \<Rightarrow> Inl e
              | Inr max_tokens \<Rightarrow>
                  (case generate_response svc
                          \<lparr>gc_query = query, gc_context = context_text, gc_model = model,
                           gc_max_tokens = int_or max_tokens 1000,
                           gc_use_web_search = use_web_search\<rparr> of
                     Inl e \<Rightarrow> Inl e
                   | Inr response \<Rightarrow>
                       Inr (LlmResponse query response (context_text \<noteq> []) use_web_search))))"

text \<open>\<^verbatim>\<open>_execute_output\<close>\<close>

definition execute_output :: "WorkflowNode \<Rightarrow> ExecutionContext \<Rightarrow> exec_error + result" where
  "execute_output node context =
     (case first_tagged ''llm_response'' context of
        None \<Rightarrow> Inl NoLlmResponse
      | Some llm_response \<Rightarrow>
          (let output_format = str_or (format (data node)) ''text'' in
           if output_format = ''json'' then
             Inr (Output (lr_response llm_response)
                    (Some \<lparr>md_query = lr_query llm_response,
                           md_context_used = lr_context_used llm_response,
                           md_format = ''json''\<rparr>))
           else Inr (Output (lr_response llm_response) None)))"

text \<open>\<^verbatim>\<open>_execute_component\<close>: the \<^verbatim>\<open>except\<close> there logs and re-raises.\<close>

definition execute_component ::
  "services \<Rightarrow> WorkflowNode \<Rightarrow> ExecutionContext \<Rightarrow> exec_error + result" where
  "execute_component svc node context =
     (if ntype node = USER_QUERY then execute_user_query node context
      else if ntype node = KNOWLEDGE_BASE then execute_knowledge_base svc node context
      else if ntype node = LLM_ENGINE then execute_llm_engine svc node context
      else if ntype node = OUTPUT then execute_output node context
      else Inl (UnknownComponentType (ntype node)))"

section \<open>Execution driver (\<^verbatim>\<open>execute_workflow\<close>)\<close>

text \<open>
  \<^verbatim>\<open>time.time()\<close> is read once at the start, once for the timestamp of every completed
  step and once for the total. The readings are a parameter \<open>clock\<close>, indexed by how many
  readings came before; when a step is logged or the total is taken, that number is one
  more than the length of the log. The readings are idealised as reals.
\<close>

type_synonym clock = "nat \<Rightarrow> real"

text \<open>\<^verbatim>\<open>int(x)\<close> on a float truncates towards zero.\<close>

definition py_int :: "real \<Rightarrow> int" where
  "py_int x = (if 0 \<le> x then \<lfloor>x\<rfloor> else \<lceil>x\<rceil>)"

definition elapsed_ms :: "clock \<Rightarrow> ExecutionContext \<Rightarrow> int" where
  "elapsed_ms clock context =
     py_int ((clock (Suc (length (execution_log context))) - start_time context) * 1000)"

text \<open>\<^verbatim>\<open>node_map = {node.id: node for node in nodes}\<close>\<close>

definition node_map_of :: "WorkflowNode list \<Rightarrow> (string, WorkflowNode) dict" where
  "node_map_of nodes = fold (\<lambda>node m. AList.update (nid node) node m) nodes []"

text \<open>
  One pass of the body of \<^verbatim>\<open>for node_id in execution_order\<close>: the node lookup, the
  dispatch, the store into \<^verbatim>\<open>intermediate_results\<close> and the log entry.
\<close>

definition run_node ::
  "services \<Rightarrow> clock \<Rightarrow> (string, WorkflowNode) dict \<Rightarrow> ExecutionContext \<Rightarrow> string
     \<Rightarrow> exec_error + ExecutionContext" where
  "run_node svc clock node_map context node_id =
     (case map_of node_map node_id of
        None \<Rightarrow> Inl (KeyError node_id)
      | Some node \<Rightarrow>
          (case execute_component svc node context of
             Inl e \<Rightarrow> Inl e
           | Inr result \<Rightarrow>
               Inr (context
                 \<lparr>intermediate_results :=
                    AList.update node_id result (intermediate_results context),
                  execution_log := execution_log context @
                    [\<lparr>step_node_id = node_id, step_node_type = ntype node,
                      step_result = result,
                      step_timestamp =
                        clock (Suc (length (execution_log context))) - start_time context\<rparr>]\<rparr>)))"

text \<open>
  The loop. An exception leaves it at once; the context, mutated in place by the source,
  is then as the completed steps left it.
\<close>

fun run_nodes ::
  "services \<Rightarrow> clock \<Rightarrow> (string, WorkflowNode) dict \<Rightarrow> ExecutionContext \<Rightarrow> string list
     \<Rightarrow> ExecutionContext \<times> exec_error option" where
  "run_nodes svc clock node_map context [] = (context, None)"
| "run_nodes svc clock node_map context (node_id # rest) =
     (case run_node svc clock node_map context node_id of
        Inl e \<Rightarrow> (context, Some e)
      | Inr context' \<Rightarrow> run_nodes svc clock node_map context' rest)"

text \<open>
  The two dictionaries \<^verbatim>\<open>execute_workflow\<close> returns. A key absent from the dictionary is
  \<open>None\<close>: the failed result has no \<^verbatim>\<open>"output"\<close> and its log no \<^verbatim>\<open>"execution_time"\<close>; the
  completed result has no \<^verbatim>\<open>"error"\<close>.
\<close>

record execution_log_summary =
  steps :: "step list"
  total_steps :: nat
  log_execution_time :: "int option"
  log_error :: "exec_error option"

record ExecutionResult =
  output_of :: "(string, result) dict option"
  error :: "exec_error option"
  execution_log_of :: execution_log_summary
  execution_time :: int
  status :: string

definition completed :: "clock \<Rightarrow> ExecutionContext \<Rightarrow> ExecutionResult" where
  "completed clock context =
     (let total_time = elapsed_ms clock context in
      \<lparr>output_of = Some (intermediate_results context),
       error = None,
       execution_log_of =
         \<lparr>steps = execution_log context, total_steps = length (execution_log context),
          log_execution_time = Some total_time, log_error = None\<rparr>,
       execution_time = total_time,
       status = ''completed''\<rparr>)"

text \<open>The \<^verbatim>\<open>except Exception as e\<close> handler; \<open>e\<close> stands for \<^verbatim>\<open>str(e)\<close>.\<close>

definition failed :: "clock \<Rightarrow> ExecutionContext \<Rightarrow> exec_error \<Rightarrow> ExecutionResult" where
  "failed clock context e =
     \<lparr>output_of = None,
      error = Some e,
      execution_log_of =
        \<lparr>steps = execution_log context, total_steps = length (execution_log context),
         log_execution_time = None, log_error = Some e\<rparr>,
      execution_time = elapsed_ms clock context,
      status = ''failed''\<rparr>"

text \<open>The context \<^verbatim>\<open>execute_workflow\<close> creates before its \<^verbatim>\<open>try\<close>.\<close>

definition initial_context :: "clock \<Rightarrow> (string, string) dict \<Rightarrow> ExecutionContext" where
  "initial_context clock input =
     \<lparr>input_data = input, intermediate_results = [], execution_log = [],
      start_time = clock 0\<rparr>"

definition execute_workflow ::
  "services \<Rightarrow> clock \<Rightarrow> WorkflowNode list \<Rightarrow> WorkflowEdge list \<Rightarrow> (string, string) dict
     \<Rightarrow> ExecutionResult" where
  "execute_workflow svc clock nodes edges input =
     (let context = initial_context clock input;
          validation = validate_workflow nodes edges
      in if \<not> is_valid validation then failed clock context (InvalidWorkflow (errors validation))
         else (case run_nodes svc clock (node_map_of nodes) context (execution_order validation) of
                 (context', Some e) \<Rightarrow> failed clock context' e
               | (context', None) \<Rightarrow> completed clock context'))"

text \<open>Whether an error string is the one that names missing required types.\<close>

fun is_missing_components :: "validation_error \<Rightarrow> bool" where
  "is_missing_components (MissingComponents _) = True"
| "is_missing_components _ = False"

section \<open>Schema defaults\<close>

text \<open>A \<^verbatim>\<open>NodeData\<close> built from a label alone takes the defaults the schema declares.\<close>

definition NodeData_defaults :: "string \<Rightarrow> NodeData" where
  "NodeData_defaults l =
     \<lparr>label = l, placeholder = None, model = None, collection = None, topK = Some 5,
      threshold = Some (7 / 10), format = Some ''text'', streaming = Some True,
      use_web_search = Some False, webSearchResults = Some 10\<rparr>"

section \<open>Example workflows\<close>

definition edge :: "string \<Rightarrow> string \<Rightarrow> WorkflowEdge" where
  "edge s t =
     \<lparr>eid = s @ ''-'' @ t, source = s, target = t, sourceHandle = None, targetHandle = None\<rparr>"

text \<open>Three nodes \<^verbatim>\<open>1\<close> (input), \<^verbatim>\<open>2\<close> (llm, model \<^verbatim>\<open>x\<close>) and \<^verbatim>\<open>3\<close> (output, format text).\<close>

definition example_nodes :: "WorkflowNode list" where
  "example_nodes =
     [\<lparr>nid = ''1'', ntype = ''input'', position = [], data = NodeData_defaults ''Query''\<rparr>,
      \<lparr>nid = ''2'', ntype = ''llm'', position = [],
       data = (NodeData_defaults ''LLM'')\<lparr>model := Some ''x''\<rparr>\<rparr>,
      \<lparr>nid = ''3'', ntype = ''output'', position = [], data = NodeData_defaults ''Out''\<rparr>]"

text \<open>The edges \<^verbatim>\<open>1 -> 2 -> 3\<close>.\<close>

definition example_edges :: "WorkflowEdge list" where
  "example_edges = [edge ''1'' ''2'', edge ''2'' ''3'']"

text \<open>Edges whose endpoints \<^verbatim>\<open>x\<close> and \<^verbatim>\<open>y\<close> are no node's id.\<close>

definition dangling_edges :: "WorkflowEdge list" where
  "dangling_edges = [edge ''1'' ''x'', edge ''x'' ''y'']"

text \<open>
  Nodes in which an llm node reuses the id of the input node: \<^verbatim>\<open>node_map\<close> keeps the later
  one under that id.
\<close>

definition shadowed_nodes :: "WorkflowNode list" where
  "shadowed_nodes =
     [\<lparr>nid = ''a'', ntype = ''input'', position = [], data = NodeData_defaults ''Query''\<rparr>,
      \<lparr>nid = ''a'', ntype = ''llm'', position = [],
       data = (NodeData_defaults ''LLM'')\<lparr>model := Some ''x''\<rparr>\<rparr>,
      \<lparr>nid = ''c'', ntype = ''output'', position = [], data = NodeData_defaults ''Out''\<rparr>]"

text \<open>Capabilities that find no document and always answer; a clock that gains a second per reading.\<close>

definition example_services :: services where
  "example_services =
     \<lparr>vector_search = (\<lambda>c. []), generate_response = (\<lambda>c. Inr ''answer'')\<rparr>"

definition example_clock :: clock where
  "example_clock n = real n"

section \<open>The order as the specification words it\<close>

text \<open>
  The adjacency list read off the edges: the neighbours of a node id are the targets of the
  edges leaving it, in edge-listing order. An id that is no node's has no neighbours (an
  edge whose source is not a node is not recorded).
\<close>

definition adjacency :: "WorkflowNode list \<Rightarrow> WorkflowEdge list \<Rightarrow> string \<Rightarrow> string list" where
  "adjacency nodes edges n =
     (if n \<in> nid ` set nodes then map target (filter (\<lambda>edge. source edge = n) edges) else [])"


text \<open>
  One step of the traversal on (queue, visited, order): dequeue a node; if it is unvisited,
  mark it visited, append it to the order and enqueue its unvisited neighbours.
\<close>

inductive bfs_step :: "(string \<Rightarrow> string list) \<Rightarrow> string list \<times> string set \<times> string list
    \<Rightarrow> string list \<times> string set \<times> string list \<Rightarrow> bool" for adj where
  skip: "current \<in> visited \<Longrightarrow> bfs_step adj (current # queue, visited, order) (queue, visited, order)"
| visit: "current \<notin> visited \<Longrightarrow>
     bfs_step adj (current # queue, visited, order)
       (queue @ filter (\<lambda>n. n \<notin> insert current visited) (adj current),
        insert current visited, order @ [current])"


text \<open>The traversal from \<open>start\<close> drains the queue with \<open>visited\<close> and \<open>order\<close>.\<close>

definition bfs_order :: "(string \<Rightarrow> string list) \<Rightarrow> string \<Rightarrow> string set \<Rightarrow> string list \<Rightarrow> bool" where
  "bfs_order adj start visited order = (bfs_step adj)\<^sup>*\<^sup>* ([start], {}, []) ([], visited, order)"


section \<open>Properties of the execution order\<close>

lemma map_of_init_fold:
  "map_of (fold (\<lambda>node g. AList.update (nid node) [] g) nodes g0) k =
     (if k \<in> nid ` set nodes then Some [] else map_of g0 k)"
  by (induction nodes arbitrary: g0) (auto simp: update_conv')

lemma map_of_init_graph:
  "map_of (init_graph nodes) k = (if k \<in> nid ` set nodes then Some [] else None)"
  by (simp add: init_graph_def map_of_init_fold)

lemma map_of_add_edge:
  "map_of (add_edge e g) k =
     (case map_of g k of None \<Rightarrow> None
      | Some ts \<Rightarrow> Some (if source e = k then ts @ [target e] else ts))"
  by (auto simp: add_edge_def update_conv' graph_get_def split: option.splits)

lemma map_of_fold_add_edge:
  "map_of (fold add_edge es g) k =
     (case map_of g k of None \<Rightarrow> None
      | Some ts \<Rightarrow> Some (ts @ map target (filter (\<lambda>edge. source edge = k) es)))"
  by (induction es arbitrary: g) (auto simp: map_of_add_edge split: option.splits)

lemma graph_get_build_graph:
  "graph_get (build_graph nodes edges) = adjacency nodes edges"
  by (rule ext) (simp add: graph_get_def build_graph_def map_of_fold_add_edge map_of_init_graph adjacency_def)

lemma bfs_steps:
  "bfs g visited order queue = (v', o') \<Longrightarrow>
     (bfs_step (graph_get g))\<^sup>*\<^sup>* (queue, visited, order) ([], v', o')"
proof (induction g visited order queue rule: bfs.induct)
  case (1 g visited order)
  then show ?case by simp
next
  case (2 g visited order current_node queue)
  show ?case
  proof (cases "current_node \<in> visited")
    case True
    with 2 have "(bfs_step (graph_get g))\<^sup>*\<^sup>* (queue, visited, order) ([], v', o')" by simp
    moreover have "bfs_step (graph_get g) (current_node # queue, visited, order) (queue, visited, order)"
      using True by (rule bfs_step.skip)
    ultimately show ?thesis by (rule converse_rtranclp_into_rtranclp[rotated])
  next
    case False
    let ?q = "queue @ filter (\<lambda>n. n \<notin> insert current_node visited) (graph_get g current_node)"
    from 2 False have "(bfs_step (graph_get g))\<^sup>*\<^sup>* (?q, insert current_node visited, order @ [current_node]) ([], v', o')"
      by simp
    moreover have "bfs_step (graph_get g) (current_node # queue, visited, order) (?q, insert current_node visited, order @ [current_node])"
      using False by (rule bfs_step.visit)
    ultimately show ?thesis by (rule converse_rtranclp_into_rtranclp[rotated])
  qed
qed

lemma bfs_visited:
  "bfs g visited order queue = (v', o') \<Longrightarrow> visited = set order \<Longrightarrow> v' = set o'"
proof (induction g visited order queue rule: bfs.induct)
  case (1 g visited order)
  then show ?case by auto
next
  case (2 g visited order current_node queue)
  then show ?case by (cases "current_node \<in> visited") auto
qed


lemma bfs_step_deterministic: "bfs_step adj s t \<Longrightarrow> bfs_step adj s t' \<Longrightarrow> t = t'"
  by (auto elim!: bfs_step.cases)

lemma bfs_step_final: "\<not> bfs_step adj ([], visited, order) t"
  by (auto elim: bfs_step.cases)

lemma bfs_steps_unique:
  assumes "(bfs_step adj)\<^sup>*\<^sup>* s ([], v, ord)" and "(bfs_step adj)\<^sup>*\<^sup>* s ([], v', ord')"
  shows "v = v' \<and> ord = ord'"
  using assms
proof (induction rule: converse_rtranclp_induct)
  case base
  then show ?case
    by (auto elim: converse_rtranclpE simp: bfs_step_final)
next
  case (step y z)
  from step.prems show ?case
  proof (cases rule: converse_rtranclpE)
    case base
    with step.hyps(1) show ?thesis by (simp add: bfs_step_final)
  next
    case (step w)
    with \<open>bfs_step adj y z\<close> have "w = z" by (auto dest: bfs_step_deterministic)
    with step step.IH show ?thesis by simp
  qed
qed

lemma determine_execution_order_bfs:
  assumes "find_input_node nodes = Some input_node"
  shows "\<exists>visited order. bfs_order (adjacency nodes edges) (nid input_node) visited order
           \<and> visited = set order
           \<and> determine_execution_order nodes edges
               = order @ map nid (filter (\<lambda>node. nid node \<notin> visited) nodes)"
proof -
  obtain v ord where b: "bfs (build_graph nodes edges) {} [] [nid input_node] = (v, ord)"
    by (cases "bfs (build_graph nodes edges) {} [] [nid input_node]")
  have "bfs_order (adjacency nodes edges) (nid input_node) v ord"
    using bfs_steps[OF b] by (simp add: bfs_order_def graph_get_build_graph)
  moreover have "v = set ord" using bfs_visited[OF b] by simp
  moreover have "determine_execution_order nodes edges
               = ord @ map nid (filter (\<lambda>node. nid node \<notin> v) nodes)"
    using assms b by (simp add: determine_execution_order_def)
  ultimately show ?thesis by blast
qed

lemma adjacency_pairs:
  "map target (filter (\<lambda>edge. source edge = x) edges)
     = map snd (filter (\<lambda>p. fst p = x) (map (\<lambda>edge. (source edge, target edge)) edges))"
  by (induction edges) auto

lemma chain_adjacency:
  assumes "mset (map (\<lambda>edge. (source edge, target edge)) edges) = {#(a, b), (b, c), (c, d)#}"
    and "distinct [a, b, c, d]"
  shows "map target (filter (\<lambda>edge. source edge = a) edges) = [b]"
    and "map target (filter (\<lambda>edge. source edge = b) edges) = [c]"
    and "map target (filter (\<lambda>edge. source edge = c) edges) = [d]"
    and "map target (filter (\<lambda>edge. source edge = d) edges) = []"
proof -
  let ?P = "map (\<lambda>edge. (source edge, target edge)) edges"
  have m: "\<And>x. mset (filter (\<lambda>p. fst p = x) ?P) = filter_mset (\<lambda>p. fst p = x) {#(a, b), (b, c), (c, d)#}"
    using assms(1) by (metis mset_filter)
  have "mset (filter (\<lambda>p. fst p = a) ?P) = {#(a, b)#}" unfolding m using assms(2) by auto
  then have "filter (\<lambda>p. fst p = a) ?P = [(a, b)]" by (simp only: mset_single_iff)
  then show "map target (filter (\<lambda>edge. source edge = a) edges) = [b]" by (simp add: adjacency_pairs)
  have "mset (filter (\<lambda>p. fst p = b) ?P) = {#(b, c)#}" unfolding m using assms(2) by auto
  then have "filter (\<lambda>p. fst p = b) ?P = [(b, c)]" by (simp only: mset_single_iff)
  then show "map target (filter (\<lambda>edge. source edge = b) edges) = [c]" by (simp add: adjacency_pairs)
  have "mset (filter (\<lambda>p. fst p = c) ?P) = {#(c, d)#}" unfolding m using assms(2) by auto
  then have "filter (\<lambda>p. fst p = c) ?P = [(c, d)]" by (simp only: mset_single_iff)
  then show "map target (filter (\<lambda>edge. source edge = c) edges) = [d]" by (simp add: adjacency_pairs)
  have "mset (filter (\<lambda>p. fst p = d) ?P) = {#}" unfolding m using assms(2) by auto
  then have "filter (\<lambda>p. fst p = d) ?P = []" by (simp only: mset_zero_iff)
  then show "map target (filter (\<lambda>edge. source edge = d) edges) = []" by (simp add: adjacency_pairs)
qed

lemma chain_input:
  assumes ids: "nid ` set nodes = {a, b, c, d}" and dist: "distinct [a, b, c, d]"
    and types: "\<forall>node \<in> set nodes. ntype node =
        (if nid node = a then USER_QUERY else if nid node = b then KNOWLEDGE_BASE
         else if nid node = c then LLM_ENGINE else OUTPUT)"
  shows "\<exists>input_node. find_input_node nodes = Some input_node \<and> nid input_node = a"
proof -
  have "a \<in> nid ` set nodes" using ids by simp
  then obtain n where n: "n \<in> set nodes" "nid n = a" by (rule imageE) simp
  from types n(1) have "ntype n = (if nid n = a then USER_QUERY else if nid n = b then KNOWLEDGE_BASE
         else if nid n = c then LLM_ENGINE else OUTPUT)" by (rule bspec)
  with n(2) have "ntype n = USER_QUERY" by simp
  with n(1) have "find (\<lambda>node. ntype node = USER_QUERY) nodes \<noteq> None"
    by (simp only: find_None_iff) blast
  then obtain m where m: "find (\<lambda>node. ntype node = USER_QUERY) nodes = Some m" by blast
  then have mm: "m \<in> set nodes" and mt: "ntype m = USER_QUERY"
    by (auto simp only: find_Some_iff dest: nth_mem)
  from types mm have tm: "ntype m = (if nid m = a then USER_QUERY else if nid m = b then KNOWLEDGE_BASE
         else if nid m = c then LLM_ENGINE else OUTPUT)" by (rule bspec)
  have "nid m = a"
  proof (rule ccontr)
    assume "nid m \<noteq> a"
    with tm have "ntype m = KNOWLEDGE_BASE \<or> ntype m = LLM_ENGINE \<or> ntype m = OUTPUT"
      by (simp split: if_splits)
    with mt show False
      by (simp add: USER_QUERY_def KNOWLEDGE_BASE_def LLM_ENGINE_def OUTPUT_def)
  qed
  with m show ?thesis by (simp add: find_input_node_def)
qed

lemma chain_order:
  assumes ids: "nid ` set nodes = {a, b, c, d}" and dist: "distinct [a, b, c, d]"
    and types: "\<forall>node \<in> set nodes. ntype node =
        (if nid node = a then USER_QUERY else if nid node = b then KNOWLEDGE_BASE
         else if nid node = c then LLM_ENGINE else OUTPUT)"
    and edges: "mset (map (\<lambda>edge. (source edge, target edge)) edges) = {#(a, b), (b, c), (c, d)#}"
  shows "determine_execution_order nodes edges = [a, b, c, d]"
proof -
  obtain input_node where inp: "find_input_node nodes = Some input_node" "nid input_node = a"
    using chain_input[OF ids dist types] by blast
  let ?g = "build_graph nodes edges"
  have adj: "graph_get ?g a = [b]" "graph_get ?g b = [c]" "graph_get ?g c = [d]" "graph_get ?g d = []"
    using chain_adjacency[OF edges dist] ids by (simp_all add: graph_get_build_graph adjacency_def)
  have "bfs ?g {} [] [a] = ({a, b, c, d}, [a, b, c, d])"
    using dist adj by (auto simp: insert_commute)
  moreover have "filter (\<lambda>node. nid node \<notin> {a, b, c, d}) nodes = []"
    using ids by (auto simp: filter_empty_conv)
  ultimately show ?thesis using inp by (simp add: determine_execution_order_def)
qed

text \<open>
  Claim C1. When an input-type node is present, \<^verbatim>\<open>_determine_execution_order\<close> returns the
  order of the breadth-first traversal from the first input-type node in listing order
  (the traversal drains the queue, and the state it ends in is unique), followed by the
  listed nodes the traversal did not visit, in listing order. In particular, for a linear
  chain input -> knowledge -> llm -> output over four distinct ids, whatever the listing
  order of the nodes and of the three edges, the order is the four ids in chain order.
\<close>

theorem determine_execution_order_bfs_then_unvisited:
  "(find_input_node nodes = Some input_node \<longrightarrow>
      (\<exists>visited order. bfs_order (adjacency nodes edges) (nid input_node) visited order)
      \<and> (\<forall>visited order. bfs_order (adjacency nodes edges) (nid input_node) visited order \<longrightarrow>
            visited = set order
            \<and> determine_execution_order nodes edges
                = order @ map nid (filter (\<lambda>node. nid node \<notin> visited) nodes)))
   \<and> (distinct [a, b, c, d] \<and> nid ` set nodes = {a, b, c, d}
        \<and> (\<forall>node \<in> set nodes. ntype node =
              (if nid node = a then USER_QUERY else if nid node = b then KNOWLEDGE_BASE
               else if nid node = c then LLM_ENGINE else OUTPUT))
        \<and> mset (map (\<lambda>edge. (source edge, target edge)) edges) = {#(a, b), (b, c), (c, d)#}
      \<longrightarrow> determine_execution_order nodes edges = [a, b, c, d])"
proof (rule conjI; rule impI)
  assume inp: "find_input_node nodes = Some input_node"
  from determine_execution_order_bfs[OF inp, of edges]
  obtain v ord where vo: "bfs_order (adjacency nodes edges) (nid input_node) v ord"
      and vs: "v = set ord"
      and de: "determine_execution_order nodes edges
                 = ord @ map nid (filter (\<lambda>node. nid node \<notin> v) nodes)"
    by (elim exE conjE)
  have ex: "\<exists>visited order. bfs_order (adjacency nodes edges) (nid input_node) visited order"
    using vo by (intro exI)
  have un: "visited = set order
            \<and> determine_execution_order nodes edges
                = order @ map nid (filter (\<lambda>node. nid node \<notin> visited) nodes)"
    if b: "bfs_order (adjacency nodes edges) (nid input_node) visited order" for visited order
  proof -
    from vo b have "v = visited \<and> ord = order"
      unfolding bfs_order_def by (rule bfs_steps_unique)
    then have e1: "v = visited" and e2: "ord = order" by (rule conjunct1, rule conjunct2)
    from vs de show ?thesis unfolding e1 e2 by (rule conjI)
  qed
  show "(\<exists>visited order. bfs_order (adjacency nodes edges) (nid input_node) visited order)
      \<and> (\<forall>visited order. bfs_order (adjacency nodes edges) (nid input_node) visited order \<longrightarrow>
            visited = set order
            \<and> determine_execution_order nodes edges
                = order @ map nid (filter (\<lambda>node. nid node \<notin> visited) nodes))"
  proof (intro conjI allI impI)
    show "\<exists>visited order. bfs_order (adjacency nodes edges) (nid input_node) visited order"
      by (rule ex)
  next
    fix visited order
    assume b: "bfs_order (adjacency nodes edges) (nid input_node) visited order"
    from un[OF b] show "visited = set order" by (rule conjunct1)
  next
    fix visited order
    assume b: "bfs_order (adjacency nodes edges) (nid input_node) visited order"
    from un[OF b] show "determine_execution_order nodes edges
                = order @ map nid (filter (\<lambda>node. nid node \<notin> visited) nodes)"
      by (rule conjunct2)
  qed
next
  assume h: "distinct [a, b, c, d] \<and> nid ` set nodes = {a, b, c, d}
        \<and> (\<forall>node \<in> set nodes. ntype node =
              (if nid node = a then USER_QUERY else if nid node = b then KNOWLEDGE_BASE
               else if nid node = c then LLM_ENGINE else OUTPUT))
        \<and> mset (map (\<lambda>edge. (source edge, target edge)) edges) = {#(a, b), (b, c), (c, d)#}"
  note d = h[THEN conjunct1]
  note i = h[THEN conjunct2, THEN conjunct1]
  note t = h[THEN conjunct2, THEN conjunct2, THEN conjunct1]
  note e = h[THEN conjunct2, THEN conjunct2, THEN conjunct2]
  show "determine_execution_order nodes edges = [a, b, c, d]"
    by (rule chain_order[OF i d t e])
qed


theorem determine_execution_order_bfs_then_unvisited_witness:
  "(let nodes = [\<lparr>nid = ''input-id'', ntype = ''input'', position = [], data = NodeData_defaults ''Query''\<rparr>,
          \<lparr>nid = ''knowledge-id'', ntype = ''knowledge'', position = [],
           data = (NodeData_defaults ''KB'')\<lparr>collection := Some ''docs''\<rparr>\<rparr>,
          \<lparr>nid = ''llm-id'', ntype = ''llm'', position = [],
           data = (NodeData_defaults ''LLM'')\<lparr>model := Some ''x''\<rparr>\<rparr>,
          \<lparr>nid = ''output-id'', ntype = ''output'', position = [], data = NodeData_defaults ''Out''\<rparr>];
        edges = [\<lparr>eid = ''e1'', source = ''input-id'', target = ''knowledge-id'', sourceHandle = None, targetHandle = None\<rparr>,
          \<lparr>eid = ''e2'', source = ''knowledge-id'', target = ''llm-id'', sourceHandle = None, targetHandle = None\<rparr>,
          \<lparr>eid = ''e3'', source = ''llm-id'', target = ''output-id'', sourceHandle = None, targetHandle = None\<rparr>]
    in find_input_node nodes = Some (hd nodes)
       \<and> (\<exists>visited order. bfs_order (adjacency nodes edges) ''input-id'' visited order)
       \<and> determine_execution_order nodes edges
            = [''input-id'', ''knowledge-id'', ''llm-id'', ''output-id''])"
proof -
  let ?nodes = "[\<lparr>nid = ''input-id'', ntype = ''input'', position = [], data = NodeData_defaults ''Query''\<rparr>,
          \<lparr>nid = ''knowledge-id'', ntype = ''knowledge'', position = [],
           data = (NodeData_defaults ''KB'')\<lparr>collection := Some ''docs''\<rparr>\<rparr>,
          \<lparr>nid = ''llm-id'', ntype = ''llm'', position = [],
           data = (NodeData_defaults ''LLM'')\<lparr>model := Some ''x''\<rparr>\<rparr>,
          \<lparr>nid = ''output-id'', ntype = ''output'', position = [], data = NodeData_defaults ''Out''\<rparr>]"
  let ?edges = "[\<lparr>eid = ''e1'', source = ''input-id'', target = ''knowledge-id'', sourceHandle = None, targetHandle = None\<rparr>,
          \<lparr>eid = ''e2'', source = ''knowledge-id'', target = ''llm-id'', sourceHandle = None, targetHandle = None\<rparr>,
          \<lparr>eid = ''e3'', source = ''llm-id'', target = ''output-id'', sourceHandle = None, targetHandle = None\<rparr>]"
  have h1: "find_input_node ?nodes = Some (hd ?nodes)"
    by (simp add: find_input_node_def USER_QUERY_def)
  have d: "distinct [''input-id'', ''knowledge-id'', ''llm-id'', ''output-id'']" by simp
  have i: "nid ` set ?nodes = {''input-id'', ''knowledge-id'', ''llm-id'', ''output-id''}" by simp
  have ty: "\<forall>node \<in> set ?nodes. ntype node =
              (if nid node = ''input-id'' then USER_QUERY else if nid node = ''knowledge-id'' then KNOWLEDGE_BASE
               else if nid node = ''llm-id'' then LLM_ENGINE else OUTPUT)"
    by (simp add: USER_QUERY_def KNOWLEDGE_BASE_def LLM_ENGINE_def OUTPUT_def)
  have e: "mset (map (\<lambda>edge. (source edge, target edge)) ?edges)
           = {#(''input-id'', ''knowledge-id''), (''knowledge-id'', ''llm-id''), (''llm-id'', ''output-id'')#}"
    by simp
  note t = determine_execution_order_bfs_then_unvisited[of ?nodes "hd ?nodes" ?edges
      "''input-id''" "''knowledge-id''" "''llm-id''" "''output-id''"]
  have n: "nid (hd ?nodes) = ''input-id''" by simp
  from t[THEN conjunct1, THEN mp, OF h1, THEN conjunct1]
  have ex: "\<exists>visited order. bfs_order (adjacency ?nodes ?edges) ''input-id'' visited order"
    unfolding n .
  have ord: "determine_execution_order ?nodes ?edges
            = [''input-id'', ''knowledge-id'', ''llm-id'', ''output-id'']"
    by (rule t[THEN conjunct2, THEN mp]) (intro conjI d i ty e)
  show ?thesis unfolding Let_def by (intro conjI h1 ex ord)
qed

section \<open>Properties of validation\<close>

lemma validate_errors:
  "errors (validate_workflow nodes edges) =
     structural_errors nodes
     @ (if structural_errors nodes = [] \<and> determine_execution_order nodes edges = []
        then [InvalidConnections] else [])
     @ concat (map validate_node_config nodes)"
  by (simp add: validate_workflow_def Let_def)

lemma validate_is_valid:
  "is_valid (validate_workflow nodes edges) = (errors (validate_workflow nodes edges) = [])"
  by (simp add: validate_workflow_def Let_def)

lemma validate_warnings: "warnings (validate_workflow nodes edges) = []"
  by (simp add: validate_workflow_def Let_def)

lemma validate_order:
  "execution_order (validate_workflow nodes edges) =
     (if structural_errors nodes = [] then determine_execution_order nodes edges else [])"
  by (simp add: validate_workflow_def Let_def)

lemma ne_set_nonempty: "x \<in> set xs \<Longrightarrow> xs \<noteq> []"
  by (cases xs) simp_all

lemma node_config_in_errors:
  assumes "node \<in> set nodes" and "e \<in> set (validate_node_config node)"
  shows "e \<in> set (errors (validate_workflow nodes edges))"
  using assms by (auto simp: validate_errors)

text \<open>
  Claim C9. The per-node configuration checks run whatever the structural and ordering
  errors: an llm node whose model is absent or empty, a knowledge node whose collection is
  absent or empty, and a knowledge node whose configured top-K is below 1 or above 50 each
  yield their error. \<^verbatim>\<open>is_valid\<close> holds exactly when no error was emitted, and the list
  of warnings is always empty.
\<close>

theorem validate_node_checks_always_run:
  "(\<forall>node \<in> set nodes.
       (ntype node = LLM_ENGINE \<and> \<not> truthy_str (model (data node))
          \<longrightarrow> ModelRequired (nid node) \<in> set (errors (validate_workflow nodes edges)))
     \<and> (ntype node = KNOWLEDGE_BASE \<and> \<not> truthy_str (collection (data node))
          \<longrightarrow> CollectionRequired (nid node) \<in> set (errors (validate_workflow nodes edges)))
     \<and> (\<forall>k. ntype node = KNOWLEDGE_BASE \<and> topK (data node) = Some k \<and> (k < 1 \<or> 50 < k)
          \<longrightarrow> TopKRange (nid node) \<in> set (errors (validate_workflow nodes edges))))
   \<and> is_valid (validate_workflow nodes edges) = (errors (validate_workflow nodes edges) = [])
   \<and> warnings (validate_workflow nodes edges) = []"
proof (intro conjI ballI impI allI)
  fix node assume n: "node \<in> set nodes"
    and h: "ntype node = LLM_ENGINE \<and> \<not> truthy_str (model (data node))"
  from h have "ModelRequired (nid node) \<in> set (validate_node_config node)"
    by (simp add: validate_node_config_def)
  with n show "ModelRequired (nid node) \<in> set (errors (validate_workflow nodes edges))"
    by (rule node_config_in_errors)
next
  fix node assume n: "node \<in> set nodes"
    and h: "ntype node = KNOWLEDGE_BASE \<and> \<not> truthy_str (collection (data node))"
  from h have "CollectionRequired (nid node) \<in> set (validate_node_config node)"
    by (simp add: validate_node_config_def KNOWLEDGE_BASE_def LLM_ENGINE_def)
  with n show "CollectionRequired (nid node) \<in> set (errors (validate_workflow nodes edges))"
    by (rule node_config_in_errors)
next
  fix node k assume n: "node \<in> set nodes"
    and h: "ntype node = KNOWLEDGE_BASE \<and> topK (data node) = Some k \<and> (k < 1 \<or> 50 < k)"
  from h have "TopKRange (nid node) \<in> set (validate_node_config node)"
    by (auto simp: validate_node_config_def KNOWLEDGE_BASE_def LLM_ENGINE_def)
  with n show "TopKRange (nid node) \<in> set (errors (validate_workflow nodes edges))"
    by (rule node_config_in_errors)
next
  show "is_valid (validate_workflow nodes edges) = (errors (validate_workflow nodes edges) = [])"
    by (rule validate_is_valid)
next
  show "warnings (validate_workflow nodes edges) = []" by (rule validate_warnings)
qed


theorem validate_node_checks_always_run_witness:
  "(let llm_node = \<lparr>nid = ''l'', ntype = ''llm'', position = [], data = NodeData_defaults ''LLM''\<rparr>;
        kb_node = \<lparr>nid = ''k'', ntype = ''knowledge'', position = [],
                   data = (NodeData_defaults ''KB'')\<lparr>topK := Some 51\<rparr>\<rparr>;
        v = validate_workflow [llm_node, kb_node] []
    in ModelRequired ''l'' \<in> set (errors v) \<and> CollectionRequired ''k'' \<in> set (errors v)
       \<and> TopKRange ''k'' \<in> set (errors v) \<and> \<not> is_valid v \<and> warnings v = []
       \<and> structural_errors [llm_node, kb_node] \<noteq> [])"
proof -
  let ?l = "\<lparr>nid = ''l'', ntype = ''llm'', position = [], data = NodeData_defaults ''LLM''\<rparr>"
  let ?k = "\<lparr>nid = ''k'', ntype = ''knowledge'', position = [],
                   data = (NodeData_defaults ''KB'')\<lparr>topK := Some 51\<rparr>\<rparr>"
  let ?v = "validate_workflow [?l, ?k] []"
  note t = validate_node_checks_always_run[of "[?l, ?k]" "[]"]
  have l: "?l \<in> set [?l, ?k]" and k: "?k \<in> set [?l, ?k]" by simp_all
  have hl: "ntype ?l = LLM_ENGINE \<and> \<not> truthy_str (model (data ?l))"
    by (simp add: LLM_ENGINE_def truthy_str_def NodeData_defaults_def)
  have hk: "ntype ?k = KNOWLEDGE_BASE \<and> \<not> truthy_str (collection (data ?k))"
    by (simp add: KNOWLEDGE_BASE_def truthy_str_def NodeData_defaults_def)
  have hr: "ntype ?k = KNOWLEDGE_BASE \<and> topK (data ?k) = Some 51 \<and> ((51::int) < 1 \<or> (50::int) < 51)"
    by (simp add: KNOWLEDGE_BASE_def NodeData_defaults_def)
  note b = t[THEN conjunct1]
  from b[THEN bspec, OF l, THEN conjunct1, THEN mp, OF hl]
  have 1: "ModelRequired ''l'' \<in> set (errors ?v)" by simp
  from b[THEN bspec, OF k, THEN conjunct2, THEN conjunct1, THEN mp, OF hk]
  have 2: "CollectionRequired ''k'' \<in> set (errors ?v)" by simp
  from b[THEN bspec, OF k, THEN conjunct2, THEN conjunct2, THEN spec, THEN mp, OF hr]
  have 3: "TopKRange ''k'' \<in> set (errors ?v)" by simp
  from 1 have "errors ?v \<noteq> []" by (rule ne_set_nonempty)
  have 4: "\<not> is_valid ?v"
  proof
    assume "is_valid ?v"
    with t[THEN conjunct2, THEN conjunct1] have "errors ?v = []" by (rule iffD1)
    with 1 show False by (simp only: list.set empty_iff)
  qed
  have 5: "warnings ?v = []" by (rule t[THEN conjunct2, THEN conjunct2])
  have 6: "structural_errors [?l, ?k] \<noteq> []"
    by (simp add: structural_errors_def required_types_def USER_QUERY_def LLM_ENGINE_def OUTPUT_def)
  show ?thesis unfolding Let_def by (intro conjI 1 2 3 4 5 6)
qed

lemma node_config_not_missing:
  "e \<in> set (validate_node_config node) \<Longrightarrow> \<not> is_missing_components e"
  by (auto simp: validate_node_config_def split: if_splits option.splits)

lemma filter_missing_configs:
  "filter is_missing_components (concat (map validate_node_config nodes)) = []"
  by (induction nodes) (auto simp: filter_empty_conv dest: node_config_not_missing)

lemma filter_missing_structural:
  "filter is_missing_components (structural_errors nodes) =
     (if \<not> required_types \<subseteq> ntype ` set nodes
      then [MissingComponents (required_types - ntype ` set nodes)] else [])"
  by (simp add: structural_errors_def Let_def)

lemma filter_missing_errors:
  "filter is_missing_components (errors (validate_workflow nodes edges)) =
     (if \<not> required_types \<subseteq> ntype ` set nodes
      then [MissingComponents (required_types - ntype ` set nodes)] else [])"
  by (simp add: validate_errors filter_missing_configs filter_missing_structural)

lemma structural_errors_missing:
  "\<not> required_types \<subseteq> ntype ` set nodes \<Longrightarrow>
     MissingComponents (required_types - ntype ` set nodes) \<in> set (structural_errors nodes)"
  by (simp add: structural_errors_def Let_def)

text \<open>
  Claim C6. With no input-type node, validation is not valid, emits an error that names
  the missing required types, \<^verbatim>\<open>input\<close> among them, and returns an empty execution order.
  Whenever the present node types do not cover input, llm and output, exactly one error
  names the missing types. The execution order is computed only when no structural error
  was emitted before; otherwise it stays empty.
\<close>

theorem validate_missing_required_types:
  "(USER_QUERY \<notin> ntype ` set nodes \<longrightarrow>
       \<not> is_valid (validate_workflow nodes edges)
       \<and> (\<exists>S. MissingComponents S \<in> set (errors (validate_workflow nodes edges)) \<and> USER_QUERY \<in> S)
       \<and> execution_order (validate_workflow nodes edges) = [])
   \<and> (\<not> required_types \<subseteq> ntype ` set nodes \<longrightarrow>
       filter is_missing_components (errors (validate_workflow nodes edges))
         = [MissingComponents (required_types - ntype ` set nodes)])
   \<and> (structural_errors nodes \<noteq> [] \<longrightarrow> execution_order (validate_workflow nodes edges) = [])
   \<and> (structural_errors nodes = [] \<longrightarrow>
       execution_order (validate_workflow nodes edges) = determine_execution_order nodes edges)"
proof (intro conjI impI)
  assume h: "USER_QUERY \<notin> ntype ` set nodes"
  then have ns: "\<not> required_types \<subseteq> ntype ` set nodes"
    by (auto simp: required_types_def)
  from ns have m: "MissingComponents (required_types - ntype ` set nodes) \<in> set (structural_errors nodes)"
    by (rule structural_errors_missing)
  then have me: "MissingComponents (required_types - ntype ` set nodes)
      \<in> set (errors (validate_workflow nodes edges))"
    by (simp add: validate_errors)
  from me have "errors (validate_workflow nodes edges) \<noteq> []" by (rule ne_set_nonempty)
  then show "\<not> is_valid (validate_workflow nodes edges)" by (simp add: validate_is_valid)
  from h have "USER_QUERY \<in> required_types - ntype ` set nodes" by (simp add: required_types_def)
  with me show "\<exists>S. MissingComponents S \<in> set (errors (validate_workflow nodes edges)) \<and> USER_QUERY \<in> S"
    by (intro exI conjI)
  from m have "structural_errors nodes \<noteq> []" by (rule ne_set_nonempty)
  then show "execution_order (validate_workflow nodes edges) = []" by (simp add: validate_order)
next
  assume "\<not> required_types \<subseteq> ntype ` set nodes"
  then show "filter is_missing_components (errors (validate_workflow nodes edges))
         = [MissingComponents (required_types - ntype ` set nodes)]"
    by (simp add: filter_missing_errors)
next
  assume "structural_errors nodes \<noteq> []"
  then show "execution_order (validate_workflow nodes edges) = []" by (simp add: validate_order)
next
  assume "structural_errors nodes = []"
  then show "execution_order (validate_workflow nodes edges) = determine_execution_order nodes edges"
    by (simp add: validate_order)
qed


theorem validate_missing_required_types_witness:
  "(let nodes = [\<lparr>nid = ''l'', ntype = ''llm'', position = [],
                   data = (NodeData_defaults ''LLM'')\<lparr>model := Some ''x''\<rparr>\<rparr>];
        v = validate_workflow nodes [];
        nodes' = [\<lparr>nid = ''1'', ntype = ''input'', position = [], data = NodeData_defaults ''Query''\<rparr>,
                  \<lparr>nid = ''2'', ntype = ''llm'', position = [],
                   data = (NodeData_defaults ''LLM'')\<lparr>model := Some ''x''\<rparr>\<rparr>,
                  \<lparr>nid = ''3'', ntype = ''output'', position = [], data = NodeData_defaults ''Out''\<rparr>];
        v' = validate_workflow nodes' []
    in USER_QUERY \<notin> ntype ` set nodes \<and> \<not> required_types \<subseteq> ntype ` set nodes
       \<and> structural_errors nodes \<noteq> []
       \<and> \<not> is_valid v
       \<and> filter is_missing_components (errors v) = [MissingComponents {''input'', ''output''}]
       \<and> execution_order v = []
       \<and> structural_errors nodes' = []
       \<and> execution_order v' = determine_execution_order nodes' [])"
proof -
  let ?n = "[\<lparr>nid = ''l'', ntype = ''llm'', position = [],
                   data = (NodeData_defaults ''LLM'')\<lparr>model := Some ''x''\<rparr>\<rparr>]"
  let ?n' = "[\<lparr>nid = ''1'', ntype = ''input'', position = [], data = NodeData_defaults ''Query''\<rparr>,
                  \<lparr>nid = ''2'', ntype = ''llm'', position = [],
                   data = (NodeData_defaults ''LLM'')\<lparr>model := Some ''x''\<rparr>\<rparr>,
                  \<lparr>nid = ''3'', ntype = ''output'', position = [], data = NodeData_defaults ''Out''\<rparr>]"
  note t = validate_missing_required_types[of ?n "[]"]
  note t' = validate_missing_required_types[of ?n' "[]"]
  have 1: "USER_QUERY \<notin> ntype ` set ?n" by (simp add: USER_QUERY_def)
  have 2: "\<not> required_types \<subseteq> ntype ` set ?n"
    unfolding required_types_def USER_QUERY_def LLM_ENGINE_def OUTPUT_def by simp
  have 3: "structural_errors ?n \<noteq> []"
    unfolding structural_errors_def required_types_def USER_QUERY_def LLM_ENGINE_def OUTPUT_def
    by simp
  have 4: "\<not> is_valid (validate_workflow ?n [])"
    by (rule t[THEN conjunct1, THEN mp, OF 1, THEN conjunct1])
  have s: "required_types - ntype ` set ?n = {''input'', ''output''}"
    unfolding required_types_def USER_QUERY_def LLM_ENGINE_def OUTPUT_def by auto
  have 5: "filter is_missing_components (errors (validate_workflow ?n []))
      = [MissingComponents {''input'', ''output''}]"
    using t[THEN conjunct2, THEN conjunct1, THEN mp, OF 2] unfolding s .
  have 6: "execution_order (validate_workflow ?n []) = []"
    by (rule t[THEN conjunct2, THEN conjunct2, THEN conjunct1, THEN mp, OF 3])
  have 7: "structural_errors ?n' = []"
    unfolding structural_errors_def required_types_def USER_QUERY_def LLM_ENGINE_def OUTPUT_def
    by simp
  have 8: "execution_order (validate_workflow ?n' []) = determine_execution_order ?n' []"
    by (rule t'[THEN conjunct2, THEN conjunct2, THEN conjunct2, THEN mp, OF 7])
  show ?thesis unfolding Let_def by (intro conjI 1 2 3 4 5 6 7 8)
qed

section \<open>Properties of the output node\<close>

lemma find_first_match:
  "P l \<Longrightarrow> \<forall>r \<in> set before. \<not> P r \<Longrightarrow> find P (before @ l # after) = Some l"
  by (induction before) simp_all

lemma first_tagged_none:
  "(\<forall>r \<in> set (dict_values (intermediate_results context)). rtype r \<noteq> tag)
     \<Longrightarrow> first_tagged tag context = None"
  by (simp add: first_tagged_def find_None_iff)

lemma last_tagged_none:
  "(\<forall>r \<in> set (dict_values (intermediate_results context)). rtype r \<noteq> tag)
     \<Longrightarrow> last_tagged tag context = None"
  by (simp add: last_tagged_def find_None_iff)

lemma first_tagged_first:
  assumes "dict_values (intermediate_results context) = before @ l # after"
    and "rtype l = tag" and "\<forall>r \<in> set before. rtype r \<noteq> tag"
  shows "first_tagged tag context = Some l"
  unfolding first_tagged_def assms(1)
  by (rule find_first_match) (use assms in simp_all)

lemma first_tagged_some:
  assumes "\<exists>r \<in> set (dict_values (intermediate_results context)). rtype r = tag"
  shows "\<exists>l \<in> set (dict_values (intermediate_results context)).
           rtype l = tag \<and> first_tagged tag context = Some l"
proof -
  from assms have "first_tagged tag context \<noteq> None"
    by (auto simp: first_tagged_def find_None_iff)
  then obtain l where l: "first_tagged tag context = Some l" by blast
  then have "l \<in> set (dict_values (intermediate_results context))" "rtype l = tag"
    by (auto simp: first_tagged_def find_Some_iff)
  with l show ?thesis by blast
qed

lemma execute_output_found:
  assumes "first_tagged ''llm_response'' context = Some l"
  shows "execute_output node context =
     Inr (Output (lr_response l)
       (if format (data node) = Some ''json''
        then Some \<lparr>md_query = lr_query l, md_context_used = lr_context_used l,
                   md_format = ''json''\<rparr>
        else None))"
  using assms by (simp add: execute_output_def str_or_def split: option.splits)

lemma execute_output_none:
  assumes "first_tagged ''llm_response'' context = None"
  shows "execute_output node context = Inl NoLlmResponse"
  using assms by (simp add: execute_output_def)

text \<open>
  Claim C3, as amended. The output node scans the values of the results mapping in
  insertion order and never looks at edges. When no entry is tagged \<^verbatim>\<open>llm_response\<close> it
  fails with \<^verbatim>\<open>ValueError("No LLM response found for output")\<close>; otherwise its result is
  built from the first entry so tagged, the earliest in insertion order.
\<close>

theorem execute_output_uses_first_llm_response:
  "((\<forall>r \<in> set (dict_values (intermediate_results context)). rtype r \<noteq> ''llm_response'')
      \<longrightarrow> execute_output node context = Inl NoLlmResponse)
   \<and> (dict_values (intermediate_results context) = before @ l # after
        \<and> rtype l = ''llm_response''
        \<and> (\<forall>r \<in> set before. rtype r \<noteq> ''llm_response'')
      \<longrightarrow> execute_output node context =
            Inr (Output (lr_response l)
              (if format (data node) = Some ''json''
               then Some \<lparr>md_query = lr_query l, md_context_used = lr_context_used l,
                          md_format = ''json''\<rparr>
               else None)))"
proof (intro conjI impI)
  assume "\<forall>r \<in> set (dict_values (intermediate_results context)). rtype r \<noteq> ''llm_response''"
  then have "first_tagged ''llm_response'' context = None" by (rule first_tagged_none)
  then show "execute_output node context = Inl NoLlmResponse" by (rule execute_output_none)
next
  assume h: "dict_values (intermediate_results context) = before @ l # after
        \<and> rtype l = ''llm_response''
        \<and> (\<forall>r \<in> set before. rtype r \<noteq> ''llm_response'')"
  have "first_tagged ''llm_response'' context = Some l"
    by (rule first_tagged_first[OF h[THEN conjunct1] h[THEN conjunct2, THEN conjunct1]
          h[THEN conjunct2, THEN conjunct2]])
  then show "execute_output node context =
            Inr (Output (lr_response l)
              (if format (data node) = Some ''json''
               then Some \<lparr>md_query = lr_query l, md_context_used = lr_context_used l,
                          md_format = ''json''\<rparr>
               else None))"
    by (rule execute_output_found)
qed

text \<open>
  The latest entry is not the one used: with two entries tagged \<^verbatim>\<open>llm_response\<close>, the latest one
  in insertion order holds the second answer, and the output node returns the first.
\<close>

theorem execute_output_latest_counterexample:
  "execute_output
     \<lparr>nid = ''out'', ntype = ''output'', position = [], data = NodeData_defaults ''Out''\<rparr>
     \<lparr>input_data = [],
      intermediate_results =
        [(''llm-1'', LlmResponse ''q'' ''first answer'' False (Some False)),
         (''llm-2'', LlmResponse ''q'' ''second answer'' False (Some False))],
      execution_log = [], start_time = 0\<rparr>
   = Inr (Output ''first answer'' None)
   \<and> last_tagged ''llm_response''
     \<lparr>input_data = [],
      intermediate_results =
        [(''llm-1'', LlmResponse ''q'' ''first answer'' False (Some False)),
         (''llm-2'', LlmResponse ''q'' ''second answer'' False (Some False))],
      execution_log = [], start_time = 0\<rparr>
     = Some (LlmResponse ''q'' ''second answer'' False (Some False))
   \<and> Output ''first answer'' None \<noteq> Output ''second answer'' None"
  by (simp add: execute_output_def first_tagged_def last_tagged_def dict_values_def
      str_or_def NodeData_defaults_def)

text \<open>
  Claim C8. An output node run on a context that holds an \<^verbatim>\<open>llm_response\<close> entry returns,
  when its configured format is \<^verbatim>\<open>"json"\<close>, the response with a metadata field holding
  the query, the context-used flag and the format \<^verbatim>\<open>"json"\<close>; for any other format
  value (absent and empty included) it returns the response alone, with no metadata.
\<close>

theorem execute_output_format:
  assumes "\<exists>r \<in> set (dict_values (intermediate_results context)). rtype r = ''llm_response''"
  shows "\<exists>l \<in> set (dict_values (intermediate_results context)). rtype l = ''llm_response''
     \<and> (format (data node) = Some ''json'' \<longrightarrow>
          execute_output node context =
            Inr (Output (lr_response l)
                  (Some \<lparr>md_query = lr_query l, md_context_used = lr_context_used l,
                          md_format = ''json''\<rparr>)))
     \<and> (format (data node) \<noteq> Some ''json'' \<longrightarrow>
          execute_output node context = Inr (Output (lr_response l) None))"
proof -
  from first_tagged_some[OF assms] obtain l
    where l: "l \<in> set (dict_values (intermediate_results context))"
      and t: "rtype l = ''llm_response''"
      and f: "first_tagged ''llm_response'' context = Some l"
    by (elim bexE conjE)
  note e = execute_output_found[OF f, of node]
  have j: "format (data node) = Some ''json'' \<longrightarrow>
          execute_output node context =
            Inr (Output (lr_response l)
                  (Some \<lparr>md_query = lr_query l, md_context_used = lr_context_used l,
                          md_format = ''json''\<rparr>))"
    using e by simp
  have n: "format (data node) \<noteq> Some ''json'' \<longrightarrow>
          execute_output node context = Inr (Output (lr_response l) None)"
    using e by simp
  from l t j n show ?thesis by (intro bexI[of _ l] conjI)
qed


theorem execute_output_uses_first_llm_response_witness:
  "execute_output
     \<lparr>nid = ''out'', ntype = ''output'', position = [], data = NodeData_defaults ''Out''\<rparr>
     \<lparr>input_data = [], intermediate_results = [(''in'', UserQuery ''q'')],
      execution_log = [], start_time = 0\<rparr>
   = Inl NoLlmResponse
   \<and> execute_output
     \<lparr>nid = ''out'', ntype = ''output'', position = [], data = NodeData_defaults ''Out''\<rparr>
     \<lparr>input_data = [],
      intermediate_results =
        [(''in'', UserQuery ''q''),
         (''llm-1'', LlmResponse ''q'' ''first answer'' False (Some False)),
         (''llm-2'', LlmResponse ''q'' ''second answer'' False (Some False))],
      execution_log = [], start_time = 0\<rparr>
   = Inr (Output ''first answer'' None)"
proof -
  let ?node = "\<lparr>nid = ''out'', ntype = ''output'', position = [], data = NodeData_defaults ''Out''\<rparr>"
  let ?c0 = "\<lparr>input_data = [], intermediate_results = [(''in'', UserQuery ''q'')],
      execution_log = [], start_time = 0::real\<rparr>"
  let ?c2 = "\<lparr>input_data = [],
      intermediate_results =
        [(''in'', UserQuery ''q''),
         (''llm-1'', LlmResponse ''q'' ''first answer'' False (Some False)),
         (''llm-2'', LlmResponse ''q'' ''second answer'' False (Some False))],
      execution_log = [], start_time = 0::real\<rparr>"
  let ?l = "LlmResponse ''q'' ''first answer'' False (Some False)"
  have h0: "\<forall>r \<in> set (dict_values (intermediate_results ?c0)). rtype r \<noteq> ''llm_response''"
    by (simp add: dict_values_def)
  have 1: "execute_output ?node ?c0 = Inl NoLlmResponse"
    by (rule execute_output_uses_first_llm_response[of ?c0 ?node, THEN conjunct1, THEN mp, OF h0])
  have h2: "dict_values (intermediate_results ?c2)
        = [UserQuery ''q''] @ ?l # [LlmResponse ''q'' ''second answer'' False (Some False)]
      \<and> rtype ?l = ''llm_response''
      \<and> (\<forall>r \<in> set [UserQuery ''q'']. rtype r \<noteq> ''llm_response'')"
    by (simp add: dict_values_def)
  have f: "format (data ?node) \<noteq> Some ''json''" by (simp add: NodeData_defaults_def)
  from execute_output_uses_first_llm_response[of ?c2 ?node "[UserQuery ''q'']" ?l
      "[LlmResponse ''q'' ''second answer'' False (Some False)]", THEN conjunct2, THEN mp, OF h2]
  have 2: "execute_output ?node ?c2 = Inr (Output ''first answer'' None)"
    unfolding if_not_P[OF f] by simp
  show ?thesis by (intro conjI 1 2)
qed

theorem execute_output_format_witness:
  "execute_output
     \<lparr>nid = ''out'', ntype = ''output'', position = [],
      data = (NodeData_defaults ''Out'')\<lparr>format := Some ''json''\<rparr>\<rparr>
     \<lparr>input_data = [],
      intermediate_results = [(''llm'', LlmResponse ''q'' ''answer'' True (Some False))],
      execution_log = [], start_time = 0\<rparr>
   = Inr (Output ''answer''
       (Some \<lparr>md_query = ''q'', md_context_used = True, md_format = ''json''\<rparr>))
   \<and> execute_output
     \<lparr>nid = ''out'', ntype = ''output'', position = [],
      data = (NodeData_defaults ''Out'')\<lparr>format := Some ''markdown''\<rparr>\<rparr>
     \<lparr>input_data = [],
      intermediate_results = [(''llm'', LlmResponse ''q'' ''answer'' True (Some False))],
      execution_log = [], start_time = 0\<rparr>
   = Inr (Output ''answer'' None)"
proof -
  let ?j = "\<lparr>nid = ''out'', ntype = ''output'', position = [],
      data = (NodeData_defaults ''Out'')\<lparr>format := Some ''json''\<rparr>\<rparr>"
  let ?m = "\<lparr>nid = ''out'', ntype = ''output'', position = [],
      data = (NodeData_defaults ''Out'')\<lparr>format := Some ''markdown''\<rparr>\<rparr>"
  let ?c = "\<lparr>input_data = [],
      intermediate_results = [(''llm'', LlmResponse ''q'' ''answer'' True (Some False))],
      execution_log = [], start_time = 0::real\<rparr>"
  have v: "dict_values (intermediate_results ?c) = [LlmResponse ''q'' ''answer'' True (Some False)]"
    by (simp add: dict_values_def)
  have h: "\<exists>r \<in> set (dict_values (intermediate_results ?c)). rtype r = ''llm_response''"
    unfolding v by simp
  have fj: "format (data ?j) = Some ''json''" by simp
  have fm: "format (data ?m) \<noteq> Some ''json''" by simp
  from execute_output_format[OF h, of ?j] obtain l
    where l: "l \<in> set (dict_values (intermediate_results ?c))"
      and j: "format (data ?j) = Some ''json'' \<longrightarrow>
          execute_output ?j ?c =
            Inr (Output (lr_response l)
                  (Some \<lparr>md_query = lr_query l, md_context_used = lr_context_used l,
                          md_format = ''json''\<rparr>))"
    by (elim bexE conjE)
  from l have lj: "l = LlmResponse ''q'' ''answer'' True (Some False)" unfolding v by simp
  from j[THEN mp, OF fj] have 1: "execute_output ?j ?c = Inr (Output ''answer''
       (Some \<lparr>md_query = ''q'', md_context_used = True, md_format = ''json''\<rparr>))"
    unfolding lj by simp
  from execute_output_format[OF h, of ?m] obtain l'
    where l': "l' \<in> set (dict_values (intermediate_results ?c))"
      and m: "format (data ?m) \<noteq> Some ''json'' \<longrightarrow>
          execute_output ?m ?c = Inr (Output (lr_response l') None)"
    by (elim bexE conjE)
  from l' have lm: "l' = LlmResponse ''q'' ''answer'' True (Some False)" unfolding v by simp
  from m[THEN mp, OF fm] have 2: "execute_output ?m ?c = Inr (Output ''answer'' None)"
    unfolding lm by simp
  show ?thesis by (intro conjI 1 2)
qed

section \<open>Properties of the knowledge and llm nodes\<close>

lemma resolve_query_none:
  "\<not> truthy_str (payload_query context) \<Longrightarrow> resolve_query None context = None"
  by (simp add: resolve_query_def)

lemma knowledge_base_skipped:
  assumes "\<forall>r \<in> set (dict_values (intermediate_results context)). rtype r \<noteq> ''user_query''"
    and "\<not> truthy_str (payload_query context)"
  shows "execute_knowledge_base svc node context = Inr (KnowledgeBase None [] (Some ''skipped''))"
proof -
  from assms(1) have "first_tagged ''user_query'' context = None" by (rule first_tagged_none)
  with assms(2) have "resolve_query (first_tagged ''user_query'' context) context = None"
    by (simp add: resolve_query_none)
  then show ?thesis by (simp add: execute_knowledge_base_def)
qed

lemma llm_engine_no_query:
  assumes "\<forall>r \<in> set (dict_values (intermediate_results context)). rtype r \<noteq> ''user_query''"
    and "\<not> truthy_str (payload_query context)"
  shows "execute_llm_engine svc node context = Inl NoQueryFound"
proof -
  from assms(1) have "last_tagged ''user_query'' context = None" by (rule last_tagged_none)
  with assms(2) have "resolve_query (last_tagged ''user_query'' context) context = None"
    by (simp add: resolve_query_none)
  then show ?thesis by (simp add: execute_llm_engine_def)
qed

lemma knowledge_base_search:
  assumes "resolve_query (first_tagged ''user_query'' context) context = Some q"
  shows "execute_knowledge_base svc node context =
     Inr (KnowledgeBase (Some q)
       (vector_search svc
          \<lparr>sc_query = q,
           sc_collection_name = str_or (collection (data node)) ''default'',
           sc_top_k = int_or (topK (data node)) 5,
           sc_threshold = 3 / 10\<rparr>)
       None)"
  using assms by (simp add: execute_knowledge_base_def)

lemma llm_engine_attribute_error:
  assumes "resolve_query (last_tagged ''user_query'' context) context = Some q"
  shows "execute_llm_engine svc node context = Inl (AttributeError ''maxTokens'')"
  using assms by (simp add: execute_llm_engine_def maxTokens_def)

text \<open>
  Claim C5. A knowledge node with a resolvable query calls the vector search with the
  threshold 0.3 whatever the node's own threshold field holds, with the collection name
  defaulting to \<^verbatim>\<open>"default"\<close> and the top-K defaulting to 5. An llm node with a resolvable
  query evaluates \<^verbatim>\<open>node.data.maxTokens or 1000\<close> among the arguments of the call to the
  text generation; \<^verbatim>\<open>NodeData\<close> declares no \<^verbatim>\<open>maxTokens\<close> field, so the read raises
  \<^verbatim>\<open>AttributeError\<close> and the text generation is never invoked.
\<close>

theorem knowledge_search_fixed_threshold_llm_attribute_error:
  "(resolve_query (first_tagged ''user_query'' context) context = Some q \<longrightarrow>
      execute_knowledge_base svc (node\<lparr>data := (data node)\<lparr>threshold := t\<rparr>\<rparr>) context =
        Inr (KnowledgeBase (Some q)
          (vector_search svc
             \<lparr>sc_query = q,
              sc_collection_name =
                (case collection (data node) of None \<Rightarrow> ''default''
                 | Some c \<Rightarrow> if c = [] then ''default'' else c),
              sc_top_k = (case topK (data node) of None \<Rightarrow> 5 | Some k \<Rightarrow> if k = 0 then 5 else k),
              sc_threshold = 3 / 10\<rparr>)
          None))
   \<and> (resolve_query (last_tagged ''user_query'' context) context = Some q' \<longrightarrow>
      execute_llm_engine svc node context = Inl (AttributeError ''maxTokens''))"
proof (intro conjI impI)
  assume "resolve_query (first_tagged ''user_query'' context) context = Some q"
  from knowledge_base_search[OF this, of svc "node\<lparr>data := (data node)\<lparr>threshold := t\<rparr>\<rparr>"]
  show "execute_knowledge_base svc (node\<lparr>data := (data node)\<lparr>threshold := t\<rparr>\<rparr>) context =
        Inr (KnowledgeBase (Some q)
          (vector_search svc
             \<lparr>sc_query = q,
              sc_collection_name =
                (case collection (data node) of None \<Rightarrow> ''default''
                 | Some c \<Rightarrow> if c = [] then ''default'' else c),
              sc_top_k = (case topK (data node) of None \<Rightarrow> 5 | Some k \<Rightarrow> if k = 0 then 5 else k),
              sc_threshold = 3 / 10\<rparr>)
          None)"
    by (simp add: str_or_def int_or_def)
next
  assume "resolve_query (last_tagged ''user_query'' context) context = Some q'"
  then show "execute_llm_engine svc node context = Inl (AttributeError ''maxTokens'')"
    by (rule llm_engine_attribute_error)
qed

theorem knowledge_search_fixed_threshold_llm_attribute_error_witness:
  "execute_knowledge_base
     \<lparr>vector_search =
        (\<lambda>c. if sc_threshold c = 3 / 10 \<and> sc_top_k c = 5 \<and> sc_collection_name c = ''default''
             then [[(''content'', ''found'')]] else []),
      generate_response = (\<lambda>c. Inr ''answer'')\<rparr>
     \<lparr>nid = ''kb'', ntype = ''knowledge'', position = [],
      data = (NodeData_defaults ''KB'')\<lparr>threshold := Some (9 / 10)\<rparr>\<rparr>
     \<lparr>input_data = [(''query'', ''hi'')], intermediate_results = [(''in'', UserQuery ''hi'')],
      execution_log = [], start_time = 0\<rparr>
   = Inr (KnowledgeBase (Some ''hi'') [[(''content'', ''found'')]] None)
   \<and> execute_llm_engine
     \<lparr>vector_search =
        (\<lambda>c. if sc_threshold c = 3 / 10 \<and> sc_top_k c = 5 \<and> sc_collection_name c = ''default''
             then [[(''content'', ''found'')]] else []),
      generate_response = (\<lambda>c. Inr ''answer'')\<rparr>
     \<lparr>nid = ''llm'', ntype = ''llm'', position = [],
      data = (NodeData_defaults ''LLM'')\<lparr>model := Some ''x''\<rparr>\<rparr>
     \<lparr>input_data = [(''query'', ''hi'')], intermediate_results = [(''in'', UserQuery ''hi'')],
      execution_log = [], start_time = 0\<rparr>
   = Inl (AttributeError ''maxTokens'')"
proof -
  let ?svc = "\<lparr>vector_search =
        (\<lambda>c. if sc_threshold c = 3 / 10 \<and> sc_top_k c = 5 \<and> sc_collection_name c = ''default''
             then [[(''content'', ''found'')]] else []),
      generate_response = (\<lambda>c. Inr ''answer'')\<rparr>"
  let ?kb = "\<lparr>nid = ''kb'', ntype = ''knowledge'', position = [], data = NodeData_defaults ''KB''\<rparr>"
  let ?llm = "\<lparr>nid = ''llm'', ntype = ''llm'', position = [],
      data = (NodeData_defaults ''LLM'')\<lparr>model := Some ''x''\<rparr>\<rparr>"
  let ?c = "\<lparr>input_data = [(''query'', ''hi'')], intermediate_results = [(''in'', UserQuery ''hi'')],
      execution_log = [], start_time = 0::real\<rparr>"
  have f: "resolve_query (first_tagged ''user_query'' ?c) ?c = Some ''hi''"
    by (simp add: resolve_query_def first_tagged_def dict_values_def)
  have l: "resolve_query (last_tagged ''user_query'' ?c) ?c = Some ''hi''"
    by (simp add: resolve_query_def last_tagged_def dict_values_def)
  have n: "?kb\<lparr>data := (data ?kb)\<lparr>threshold := Some (9 / 10)\<rparr>\<rparr>
      = \<lparr>nid = ''kb'', ntype = ''knowledge'', position = [],
          data = (NodeData_defaults ''KB'')\<lparr>threshold := Some (9 / 10)\<rparr>\<rparr>"
    by simp
  from knowledge_search_fixed_threshold_llm_attribute_error[of ?c "''hi''" ?svc "Some (9 / 10)" ?kb,
      THEN conjunct1, THEN mp, OF f]
  have 1: "execute_knowledge_base ?svc
     \<lparr>nid = ''kb'', ntype = ''knowledge'', position = [],
      data = (NodeData_defaults ''KB'')\<lparr>threshold := Some (9 / 10)\<rparr>\<rparr> ?c
   = Inr (KnowledgeBase (Some ''hi'') [[(''content'', ''found'')]] None)"
    unfolding n by (simp add: NodeData_defaults_def)
  have 2: "execute_llm_engine ?svc ?llm ?c = Inl (AttributeError ''maxTokens'')"
    by (rule knowledge_search_fixed_threshold_llm_attribute_error[of ?c _ ?svc _ ?llm "''hi''",
      THEN conjunct2, THEN mp, OF l])
  show ?thesis by (intro conjI 1 2)
qed

section \<open>Properties of the execution driver\<close>

lemma run_nodes_append:
  "run_nodes svc clock nm context (xs @ ys) =
     (case run_nodes svc clock nm context xs of
        (context', Some e) \<Rightarrow> (context', Some e)
      | (context', None) \<Rightarrow> run_nodes svc clock nm context' ys)"
  by (induction xs arbitrary: "context") (simp_all split: sum.splits)

lemma run_node_log:
  assumes "run_node svc clock nm context node_id = Inr context'"
  shows "map step_node_id (execution_log context')
           = map step_node_id (execution_log context) @ [node_id]"
  using assms by (auto simp: run_node_def split: option.splits sum.splits)

lemma run_nodes_log:
  "run_nodes svc clock nm context xs = (context', None) \<Longrightarrow>
     map step_node_id (execution_log context') = map step_node_id (execution_log context) @ xs"
proof (induction xs arbitrary: "context")
  case Nil
  then show ?case by simp
next
  case (Cons x xs)
  from Cons.prems obtain c1 where c1: "run_node svc clock nm context x = Inr c1"
      and r: "run_nodes svc clock nm c1 xs = (context', None)"
    by (cases "run_node svc clock nm context x") simp_all
  from Cons.IH[OF r] run_node_log[OF c1] show ?case by simp
qed

lemma run_nodes_stops:
  assumes "run_nodes svc clock nm context0 before = (context, None)"
    and "run_node svc clock nm context node_id = Inl e"
  shows "run_nodes svc clock nm context0 (before @ node_id # rest) = (context, Some e)"
  using assms by (simp add: run_nodes_append)

lemma execute_workflow_valid:
  "is_valid (validate_workflow nodes edges) \<Longrightarrow>
     execute_workflow svc clock nodes edges input =
       (case run_nodes svc clock (node_map_of nodes) (initial_context clock input)
               (execution_order (validate_workflow nodes edges)) of
          (context', Some e) \<Rightarrow> failed clock context' e
        | (context', None) \<Rightarrow> completed clock context')"
  by (simp add: execute_workflow_def Let_def)

lemma execute_workflow_invalid:
  "\<not> is_valid (validate_workflow nodes edges) \<Longrightarrow>
     execute_workflow svc clock nodes edges input =
       failed clock (initial_context clock input)
         (InvalidWorkflow (errors (validate_workflow nodes edges)))"
  by (simp add: execute_workflow_def Let_def)

lemma execute_workflow_status:
  "status (execute_workflow svc clock nodes edges input) = ''completed''
     \<and> error (execute_workflow svc clock nodes edges input) = None
   \<or> status (execute_workflow svc clock nodes edges input) = ''failed''
     \<and> error (execute_workflow svc clock nodes edges input) \<noteq> None"
proof (cases "is_valid (validate_workflow nodes edges)")
  case False
  then show ?thesis by (simp add: execute_workflow_invalid failed_def)
next
  case True
  obtain c r where cr: "run_nodes svc clock (node_map_of nodes) (initial_context clock input)
               (execution_order (validate_workflow nodes edges)) = (c, r)"
    by (cases "run_nodes svc clock (node_map_of nodes) (initial_context clock input)
               (execution_order (validate_workflow nodes edges))")
  show ?thesis
    by (cases r) (simp_all add: execute_workflow_valid[OF True] cr failed_def completed_def Let_def)
qed

lemma execute_workflow_failure:
  assumes v: "is_valid (validate_workflow nodes edges)"
    and o: "execution_order (validate_workflow nodes edges) = before @ node_id # rest"
    and d: "run_nodes svc clock (node_map_of nodes) (initial_context clock input) before
              = (context, None)"
    and f: "run_node svc clock (node_map_of nodes) context node_id = Inl e"
  shows "execute_workflow svc clock nodes edges input = failed clock context e"
    and "map step_node_id (execution_log context) = before"
    and "run_nodes svc clock (node_map_of nodes) (initial_context clock input)
           (before @ node_id # rest) = (context, Some e)"
proof -
  from run_nodes_stops[OF d f, of rest]
  show "execute_workflow svc clock nodes edges input = failed clock context e"
    by (simp add: execute_workflow_valid[OF v] o)
  from run_nodes_log[OF d] show "map step_node_id (execution_log context) = before"
    by (simp add: initial_context_def)
  from run_nodes_stops[OF d f, of rest]
  show "run_nodes svc clock (node_map_of nodes) (initial_context clock input)
           (before @ node_id # rest) = (context, Some e)" .
qed

lemma run_node_start_time:
  "run_node svc clock nm context node_id = Inr context' \<Longrightarrow>
     start_time context' = start_time context"
  by (auto simp: run_node_def split: option.splits sum.splits)

lemma run_nodes_start_time:
  "run_nodes svc clock nm context xs = (context', r) \<Longrightarrow>
     start_time context' = start_time context"
proof (induction xs arbitrary: "context")
  case Nil
  then show ?case by simp
next
  case (Cons x xs)
  show ?case
  proof (cases "run_node svc clock nm context x")
    case (Inl e)
    with Cons.prems show ?thesis by simp
  next
    case (Inr c1)
    with Cons.prems have "run_nodes svc clock nm c1 xs = (context', r)" by simp
    from Cons.IH[OF this] run_node_start_time[OF Inr] show ?thesis by simp
  qed
qed

lemma failed_record:
  assumes "map step_node_id (execution_log context) = before"
    and "start_time context = clock 0"
  shows "failed clock context e =
     \<lparr>output_of = None, error = Some e,
      execution_log_of =
        \<lparr>steps = execution_log context, total_steps = length before,
         log_execution_time = None, log_error = Some e\<rparr>,
      execution_time = py_int ((clock (Suc (length before)) - clock 0) * 1000),
      status = ''failed''\<rparr>"
proof -
  from assms(1) have "length (execution_log context) = length before"
    by (metis length_map)
  with assms(2) show ?thesis by (simp add: failed_def elapsed_ms_def)
qed


lemmas validate_eval = example_nodes_def example_edges_def dangling_edges_def shadowed_nodes_def
  edge_def validate_workflow_def structural_errors_def required_types_def
  USER_QUERY_def KNOWLEDGE_BASE_def LLM_ENGINE_def OUTPUT_def validate_node_config_def
  determine_execution_order_def build_graph_def init_graph_def add_edge_def
  find_input_node_def NodeData_defaults_def truthy_str_def Let_def

lemma validate_example:
  "validate_workflow example_nodes example_edges =
     \<lparr>is_valid = True, errors = [], warnings = [], execution_order = [''1'', ''2'', ''3'']\<rparr>"
  unfolding validate_eval by (simp add: graph_get_def)

lemma validate_dangling:
  "validate_workflow example_nodes dangling_edges =
     \<lparr>is_valid = True, errors = [], warnings = [],
      execution_order = [''1'', ''x'', ''2'', ''3'']\<rparr>"
  unfolding validate_eval by (simp add: graph_get_def)

lemma validate_shadowed:
  "validate_workflow shadowed_nodes [] =
     \<lparr>is_valid = True, errors = [], warnings = [], execution_order = [''a'', ''c'']\<rparr>"
  unfolding validate_eval by (simp add: graph_get_def)

lemma validate_empty:
  "validate_workflow [] [] =
     \<lparr>is_valid = False, errors = [MissingComponents {''input'', ''llm'', ''output''}],
      warnings = [], execution_order = []\<rparr>"
  unfolding validate_eval by simp

lemma node_map_example:
  "map_of (node_map_of example_nodes) ''1'' = Some (example_nodes ! 0)"
  "map_of (node_map_of example_nodes) ''2'' = Some (example_nodes ! 1)"
  "map_of (node_map_of example_nodes) ''x'' = None"
  by (simp_all add: node_map_of_def example_nodes_def)

lemma node_map_shadowed:
  "map_of (node_map_of shadowed_nodes) ''a'' = Some (shadowed_nodes ! 1)"
  by (simp add: node_map_of_def shadowed_nodes_def)

lemma run_input_example:
  "run_node svc clock (node_map_of example_nodes) (initial_context clock [(''query'', ''hi'')]) ''1''
     = Inr \<lparr>input_data = [(''query'', ''hi'')],
            intermediate_results = [(''1'', UserQuery ''hi'')],
            execution_log =
              [\<lparr>step_node_id = ''1'', step_node_type = ''input'',
                step_result = UserQuery ''hi'', step_timestamp = clock 1 - clock 0\<rparr>],
            start_time = clock 0\<rparr>"
  unfolding run_node_def node_map_example
  by (simp add: example_nodes_def execute_component_def
      execute_user_query_def payload_query_def initial_context_def USER_QUERY_def)

lemma run_llm_example:
  "run_node svc clock (node_map_of example_nodes)
     \<lparr>input_data = [(''query'', ''hi'')],
      intermediate_results = [(''1'', UserQuery ''hi'')],
      execution_log = l, start_time = t\<rparr> ''2''
     = Inl (AttributeError ''maxTokens'')"
  unfolding run_node_def node_map_example
  by (simp add: example_nodes_def execute_component_def
      execute_llm_engine_def resolve_query_def last_tagged_def dict_values_def maxTokens_def
      USER_QUERY_def KNOWLEDGE_BASE_def LLM_ENGINE_def)

lemma run_dangling_example:
  "run_node svc clock (node_map_of example_nodes) context ''x'' = Inl (KeyError ''x'')"
  by (simp add: run_node_def node_map_example)


text \<open>
  Claim C2. Whatever the input, \<^verbatim>\<open>execute_workflow\<close> returns a result: either completed with no
  error or failed with one; every raise site of its \<^verbatim>\<open>try\<close> body is a value handled by the
  \<^verbatim>\<open>except\<close> branch. When the nodes \<open>before\<close> completed and the next node raises \<open>e\<close> (from
  its lookup or its execution), the loop ends there whatever nodes remain, and the result
  has status \<^verbatim>\<open>"failed"\<close>, the error \<open>e\<close>, the log with exactly one step for each node of
  \<open>before\<close>, in order, and the elapsed time in milliseconds.
\<close>

theorem execute_workflow_failure_is_a_result:
  "(status (execute_workflow svc clock nodes edges input) = ''completed''
      \<and> error (execute_workflow svc clock nodes edges input) = None
    \<or> status (execute_workflow svc clock nodes edges input) = ''failed''
      \<and> error (execute_workflow svc clock nodes edges input) \<noteq> None)
   \<and> (is_valid (validate_workflow nodes edges)
      \<and> execution_order (validate_workflow nodes edges) = before @ node_id # rest
      \<and> run_nodes svc clock (node_map_of nodes) (initial_context clock input) before
            = (context, None)
      \<and> run_node svc clock (node_map_of nodes) context node_id = Inl e
      \<longrightarrow> run_nodes svc clock (node_map_of nodes) (initial_context clock input)
            (before @ node_id # rest) = (context, Some e)
        \<and> map step_node_id (execution_log context) = before
        \<and> execute_workflow svc clock nodes edges input =
            \<lparr>output_of = None, error = Some e,
             execution_log_of =
               \<lparr>steps = execution_log context, total_steps = length before,
                log_execution_time = None, log_error = Some e\<rparr>,
             execution_time = py_int ((clock (Suc (length before)) - clock 0) * 1000),
             status = ''failed''\<rparr>)"
proof (rule conjI)
  show "status (execute_workflow svc clock nodes edges input) = ''completed''
      \<and> error (execute_workflow svc clock nodes edges input) = None
    \<or> status (execute_workflow svc clock nodes edges input) = ''failed''
      \<and> error (execute_workflow svc clock nodes edges input) \<noteq> None"
    by (rule execute_workflow_status)
next
  show "is_valid (validate_workflow nodes edges)
      \<and> execution_order (validate_workflow nodes edges) = before @ node_id # rest
      \<and> run_nodes svc clock (node_map_of nodes) (initial_context clock input) before
            = (context, None)
      \<and> run_node svc clock (node_map_of nodes) context node_id = Inl e
      \<longrightarrow> run_nodes svc clock (node_map_of nodes) (initial_context clock input)
            (before @ node_id # rest) = (context, Some e)
        \<and> map step_node_id (execution_log context) = before
        \<and> execute_workflow svc clock nodes edges input =
            \<lparr>output_of = None, error = Some e,
             execution_log_of =
               \<lparr>steps = execution_log context, total_steps = length before,
                log_execution_time = None, log_error = Some e\<rparr>,
             execution_time = py_int ((clock (Suc (length before)) - clock 0) * 1000),
             status = ''failed''\<rparr>"
  proof (rule impI)
    assume h: "is_valid (validate_workflow nodes edges)
      \<and> execution_order (validate_workflow nodes edges) = before @ node_id # rest
      \<and> run_nodes svc clock (node_map_of nodes) (initial_context clock input) before
            = (context, None)
      \<and> run_node svc clock (node_map_of nodes) context node_id = Inl e"
    note v = h[THEN conjunct1]
    note o = h[THEN conjunct2, THEN conjunct1]
    note d = h[THEN conjunct2, THEN conjunct2, THEN conjunct1]
    note f = h[THEN conjunct2, THEN conjunct2, THEN conjunct2]
    note r = execute_workflow_failure[OF v o d f]
    have st: "start_time context = clock 0"
      using run_nodes_start_time[OF d] by (simp add: initial_context_def)
    have "execute_workflow svc clock nodes edges input =
            \<lparr>output_of = None, error = Some e,
             execution_log_of =
               \<lparr>steps = execution_log context, total_steps = length before,
                log_execution_time = None, log_error = Some e\<rparr>,
             execution_time = py_int ((clock (Suc (length before)) - clock 0) * 1000),
             status = ''failed''\<rparr>"
      unfolding r(1) using r(2) st by (rule failed_record[of "context" before clock e])
    with r(3) r(2) show "run_nodes svc clock (node_map_of nodes) (initial_context clock input)
            (before @ node_id # rest) = (context, Some e)
        \<and> map step_node_id (execution_log context) = before
        \<and> execute_workflow svc clock nodes edges input =
            \<lparr>output_of = None, error = Some e,
             execution_log_of =
               \<lparr>steps = execution_log context, total_steps = length before,
                log_execution_time = None, log_error = Some e\<rparr>,
             execution_time = py_int ((clock (Suc (length before)) - clock 0) * 1000),
             status = ''failed''\<rparr>"
      by (intro conjI)
  qed
qed


theorem execute_workflow_failure_is_a_result_witness:
  "is_valid (validate_workflow example_nodes example_edges)
   \<and> execution_order (validate_workflow example_nodes example_edges) = [''1''] @ ''2'' # [''3'']
   \<and> execute_workflow example_services example_clock example_nodes example_edges
         [(''query'', ''hi'')] =
       \<lparr>output_of = None, error = Some (AttributeError ''maxTokens''),
        execution_log_of =
          \<lparr>steps = [\<lparr>step_node_id = ''1'', step_node_type = ''input'',
                      step_result = UserQuery ''hi'', step_timestamp = 1\<rparr>],
           total_steps = 1, log_execution_time = None,
           log_error = Some (AttributeError ''maxTokens'')\<rparr>,
        execution_time = 2000, status = ''failed''\<rparr>"
proof -
  let ?c1 = "\<lparr>input_data = [(''query'', ''hi'')],
            intermediate_results = [(''1'', UserQuery ''hi'')],
            execution_log =
              [\<lparr>step_node_id = ''1'', step_node_type = ''input'',
                step_result = UserQuery ''hi'',
                step_timestamp = example_clock 1 - example_clock 0\<rparr>],
            start_time = example_clock 0\<rparr>"
  have v: "is_valid (validate_workflow example_nodes example_edges)"
    by (simp add: validate_example)
  have o: "execution_order (validate_workflow example_nodes example_edges) = [''1''] @ ''2'' # [''3'']"
    by (simp add: validate_example)
  have d: "run_nodes example_services example_clock (node_map_of example_nodes)
      (initial_context example_clock [(''query'', ''hi'')]) [''1''] = (?c1, None)"
    by (simp add: run_input_example)
  have f: "run_node example_services example_clock (node_map_of example_nodes) ?c1 ''2''
      = Inl (AttributeError ''maxTokens'')"
    by (rule run_llm_example)
  have h: "is_valid (validate_workflow example_nodes example_edges)
      \<and> execution_order (validate_workflow example_nodes example_edges) = [''1''] @ ''2'' # [''3'']
      \<and> run_nodes example_services example_clock (node_map_of example_nodes)
            (initial_context example_clock [(''query'', ''hi'')]) [''1''] = (?c1, None)
      \<and> run_node example_services example_clock (node_map_of example_nodes) ?c1 ''2''
            = Inl (AttributeError ''maxTokens'')"
    by (intro conjI v o d f)
  note t = execute_workflow_failure_is_a_result[of example_services example_clock example_nodes
      example_edges "[(''query'', ''hi'')]" "[''1'']" "''2''" "[''3'']" ?c1
      "AttributeError ''maxTokens''", THEN conjunct2, THEN mp, OF h,
      THEN conjunct2, THEN conjunct2]
  have r: "execute_workflow example_services example_clock example_nodes example_edges
         [(''query'', ''hi'')] =
       \<lparr>output_of = None, error = Some (AttributeError ''maxTokens''),
        execution_log_of =
          \<lparr>steps = [\<lparr>step_node_id = ''1'', step_node_type = ''input'',
                      step_result = UserQuery ''hi'', step_timestamp = 1\<rparr>],
           total_steps = 1, log_execution_time = None,
           log_error = Some (AttributeError ''maxTokens'')\<rparr>,
        execution_time = 2000, status = ''failed''\<rparr>"
    unfolding t by (simp add: example_clock_def py_int_def)
  show ?thesis by (intro conjI v o r)
qed

text \<open>
  Claim C4. When validation fails, \<^verbatim>\<open>execute_workflow\<close> runs no node: whatever the
  capabilities, it returns status \<^verbatim>\<open>"failed"\<close>, an error that carries the validator's error
  list, a log with zero steps and no output.
\<close>

theorem execute_workflow_invalid_runs_nothing:
  "\<not> is_valid (validate_workflow nodes edges) \<Longrightarrow>
     execute_workflow svc clock nodes edges input =
       \<lparr>output_of = None,
        error = Some (InvalidWorkflow (errors (validate_workflow nodes edges))),
        execution_log_of =
          \<lparr>steps = [], total_steps = 0, log_execution_time = None,
           log_error = Some (InvalidWorkflow (errors (validate_workflow nodes edges)))\<rparr>,
        execution_time = py_int ((clock 1 - clock 0) * 1000),
        status = ''failed''\<rparr>"
  by (simp add: execute_workflow_invalid failed_def elapsed_ms_def initial_context_def)

theorem execute_workflow_invalid_runs_nothing_witness:
  "\<not> is_valid (validate_workflow [] [])
   \<and> execute_workflow example_services example_clock [] [] [(''query'', ''hi'')] =
       \<lparr>output_of = None,
        error = Some (InvalidWorkflow [MissingComponents {''input'', ''llm'', ''output''}]),
        execution_log_of =
          \<lparr>steps = [], total_steps = 0, log_execution_time = None,
           log_error = Some (InvalidWorkflow [MissingComponents {''input'', ''llm'', ''output''}])\<rparr>,
        execution_time = 1000,
        status = ''failed''\<rparr>"
proof -
  have v: "\<not> is_valid (validate_workflow [] [])" by (simp add: validate_empty)
  have e: "errors (validate_workflow [] []) = [MissingComponents {''input'', ''llm'', ''output''}]"
    by (simp add: validate_empty)
  have t: "py_int ((example_clock 1 - example_clock 0) * 1000) = 1000"
    by (simp add: example_clock_def py_int_def)
  from execute_workflow_invalid_runs_nothing[OF v, of example_services example_clock
      "[(''query'', ''hi'')]"]
  have r: "execute_workflow example_services example_clock [] [] [(''query'', ''hi'')] =
       \<lparr>output_of = None,
        error = Some (InvalidWorkflow [MissingComponents {''input'', ''llm'', ''output''}]),
        execution_log_of =
          \<lparr>steps = [], total_steps = 0, log_execution_time = None,
           log_error = Some (InvalidWorkflow [MissingComponents {''input'', ''llm'', ''output''}])\<rparr>,
        execution_time = 1000,
        status = ''failed''\<rparr>"
    unfolding e t .
  show ?thesis by (intro conjI v r)
qed

lemma run_node_llm_no_query:
  assumes m: "map_of nm node_id = Some node" and t: "ntype node = LLM_ENGINE"
    and n: "\<forall>r \<in> set (dict_values (intermediate_results context)). rtype r \<noteq> ''user_query''"
    and p: "\<not> truthy_str (payload_query context)"
  shows "run_node svc clock nm context node_id = Inl NoQueryFound"
proof -
  have "execute_component svc node context = execute_llm_engine svc node context"
    using t by (simp add: execute_component_def USER_QUERY_def KNOWLEDGE_BASE_def LLM_ENGINE_def)
  also have "\<dots> = Inl NoQueryFound" by (rule llm_engine_no_query[OF n p])
  finally show ?thesis using m by (simp add: run_node_def)
qed

text \<open>
  Claim C7. On a context with no result tagged \<^verbatim>\<open>user_query\<close> and no usable query in the
  input payload, a knowledge node returns the result tagged \<^verbatim>\<open>knowledge_base\<close> with empty
  results and status \<^verbatim>\<open>"skipped"\<close> and raises nothing, while an llm node raises
  \<^verbatim>\<open>ValueError("No query found for LLM processing")\<close>. When that llm node is the next one of
  a run whose nodes \<open>before\<close> completed, the run returns status \<^verbatim>\<open>"failed"\<close> with that
  error and a log of exactly the steps of \<open>before\<close>.
\<close>

theorem no_query_knowledge_skips_llm_fails:
  "(\<forall>r \<in> set (dict_values (intermediate_results context)). rtype r \<noteq> ''user_query'')
   \<and> \<not> truthy_str (payload_query context)
   \<longrightarrow> execute_knowledge_base svc kb_node context = Inr (KnowledgeBase None [] (Some ''skipped''))
       \<and> rtype (KnowledgeBase None [] (Some ''skipped'')) = ''knowledge_base''
       \<and> execute_llm_engine svc llm_node context = Inl NoQueryFound
       \<and> (is_valid (validate_workflow nodes edges)
            \<and> execution_order (validate_workflow nodes edges) = before @ node_id # rest
            \<and> run_nodes svc clock (node_map_of nodes) (initial_context clock input) before
                 = (context, None)
            \<and> map_of (node_map_of nodes) node_id = Some llm_node
            \<and> ntype llm_node = LLM_ENGINE
          \<longrightarrow> map step_node_id (execution_log context) = before
              \<and> execute_workflow svc clock nodes edges input =
                  \<lparr>output_of = None, error = Some NoQueryFound,
                   execution_log_of =
                     \<lparr>steps = execution_log context, total_steps = length before,
                      log_execution_time = None, log_error = Some NoQueryFound\<rparr>,
                   execution_time = py_int ((clock (Suc (length before)) - clock 0) * 1000),
                   status = ''failed''\<rparr>)"
proof (rule impI)
  assume a: "(\<forall>r \<in> set (dict_values (intermediate_results context)). rtype r \<noteq> ''user_query'')
   \<and> \<not> truthy_str (payload_query context)"
  note n = a[THEN conjunct1]
  note p = a[THEN conjunct2]
  have 1: "execute_knowledge_base svc kb_node context = Inr (KnowledgeBase None [] (Some ''skipped''))"
    by (rule knowledge_base_skipped[OF n p])
  have 2: "rtype (KnowledgeBase None [] (Some ''skipped'')) = ''knowledge_base''" by simp
  have 3: "execute_llm_engine svc llm_node context = Inl NoQueryFound"
    by (rule llm_engine_no_query[OF n p])
  have 4: "is_valid (validate_workflow nodes edges)
            \<and> execution_order (validate_workflow nodes edges) = before @ node_id # rest
            \<and> run_nodes svc clock (node_map_of nodes) (initial_context clock input) before
                 = (context, None)
            \<and> map_of (node_map_of nodes) node_id = Some llm_node
            \<and> ntype llm_node = LLM_ENGINE
          \<longrightarrow> map step_node_id (execution_log context) = before
              \<and> execute_workflow svc clock nodes edges input =
                  \<lparr>output_of = None, error = Some NoQueryFound,
                   execution_log_of =
                     \<lparr>steps = execution_log context, total_steps = length before,
                      log_execution_time = None, log_error = Some NoQueryFound\<rparr>,
                   execution_time = py_int ((clock (Suc (length before)) - clock 0) * 1000),
                   status = ''failed''\<rparr>"
  proof (rule impI)
    assume h: "is_valid (validate_workflow nodes edges)
            \<and> execution_order (validate_workflow nodes edges) = before @ node_id # rest
            \<and> run_nodes svc clock (node_map_of nodes) (initial_context clock input) before
                 = (context, None)
            \<and> map_of (node_map_of nodes) node_id = Some llm_node
            \<and> ntype llm_node = LLM_ENGINE"
    note v = h[THEN conjunct1]
    note o = h[THEN conjunct2, THEN conjunct1]
    note d = h[THEN conjunct2, THEN conjunct2, THEN conjunct1]
    note m = h[THEN conjunct2, THEN conjunct2, THEN conjunct2, THEN conjunct1]
    note t = h[THEN conjunct2, THEN conjunct2, THEN conjunct2, THEN conjunct2]
    have f: "run_node svc clock (node_map_of nodes) context node_id = Inl NoQueryFound"
      by (rule run_node_llm_no_query[OF m t n p])
    note r = execute_workflow_failure[OF v o d f]
    have st: "start_time context = clock 0"
      using run_nodes_start_time[OF d] by (simp add: initial_context_def)
    have "execute_workflow svc clock nodes edges input =
                  \<lparr>output_of = None, error = Some NoQueryFound,
                   execution_log_of =
                     \<lparr>steps = execution_log context, total_steps = length before,
                      log_execution_time = None, log_error = Some NoQueryFound\<rparr>,
                   execution_time = py_int ((clock (Suc (length before)) - clock 0) * 1000),
                   status = ''failed''\<rparr>"
      unfolding r(1) using r(2) st by (rule failed_record[of "context" before clock NoQueryFound])
    with r(2) show "map step_node_id (execution_log context) = before
              \<and> execute_workflow svc clock nodes edges input =
                  \<lparr>output_of = None, error = Some NoQueryFound,
                   execution_log_of =
                     \<lparr>steps = execution_log context, total_steps = length before,
                      log_execution_time = None, log_error = Some NoQueryFound\<rparr>,
                   execution_time = py_int ((clock (Suc (length before)) - clock 0) * 1000),
                   status = ''failed''\<rparr>"
      by (intro conjI)
  qed
  show "execute_knowledge_base svc kb_node context = Inr (KnowledgeBase None [] (Some ''skipped''))
       \<and> rtype (KnowledgeBase None [] (Some ''skipped'')) = ''knowledge_base''
       \<and> execute_llm_engine svc llm_node context = Inl NoQueryFound
       \<and> (is_valid (validate_workflow nodes edges)
            \<and> execution_order (validate_workflow nodes edges) = before @ node_id # rest
            \<and> run_nodes svc clock (node_map_of nodes) (initial_context clock input) before
                 = (context, None)
            \<and> map_of (node_map_of nodes) node_id = Some llm_node
            \<and> ntype llm_node = LLM_ENGINE
          \<longrightarrow> map step_node_id (execution_log context) = before
              \<and> execute_workflow svc clock nodes edges input =
                  \<lparr>output_of = None, error = Some NoQueryFound,
                   execution_log_of =
                     \<lparr>steps = execution_log context, total_steps = length before,
                      log_execution_time = None, log_error = Some NoQueryFound\<rparr>,
                   execution_time = py_int ((clock (Suc (length before)) - clock 0) * 1000),
                   status = ''failed''\<rparr>)"
    by (intro conjI 1 2 3 4)
qed


theorem no_query_knowledge_skips_llm_fails_witness:
  "execute_knowledge_base example_services
     \<lparr>nid = ''kb'', ntype = ''knowledge'', position = [],
      data = (NodeData_defaults ''KB'')\<lparr>collection := Some ''docs''\<rparr>\<rparr>
     (initial_context example_clock [])
   = Inr (KnowledgeBase None [] (Some ''skipped''))
   \<and> execute_llm_engine example_services (shadowed_nodes ! 1) (initial_context example_clock [])
     = Inl NoQueryFound
   \<and> is_valid (validate_workflow shadowed_nodes [])
   \<and> execution_order (validate_workflow shadowed_nodes []) = [] @ ''a'' # [''c'']
   \<and> execute_workflow example_services example_clock shadowed_nodes [] [] =
       \<lparr>output_of = None, error = Some NoQueryFound,
        execution_log_of =
          \<lparr>steps = [], total_steps = 0, log_execution_time = None,
           log_error = Some NoQueryFound\<rparr>,
        execution_time = 1000, status = ''failed''\<rparr>"
proof -
  let ?kb = "\<lparr>nid = ''kb'', ntype = ''knowledge'', position = [],
      data = (NodeData_defaults ''KB'')\<lparr>collection := Some ''docs''\<rparr>\<rparr>"
  let ?c = "initial_context example_clock []"
  have a: "(\<forall>r \<in> set (dict_values (intermediate_results ?c)). rtype r \<noteq> ''user_query'')
      \<and> \<not> truthy_str (payload_query ?c)"
    by (simp add: initial_context_def dict_values_def payload_query_def truthy_str_def)
  note t = no_query_knowledge_skips_llm_fails[of ?c example_services ?kb "shadowed_nodes ! 1"
      shadowed_nodes "[]" "[]" "''a''" "[''c'']" example_clock "[]", THEN mp, OF a]
  note 1 = t[THEN conjunct1]
  note 2 = t[THEN conjunct2, THEN conjunct2, THEN conjunct1]
  have v: "is_valid (validate_workflow shadowed_nodes [])" by (simp add: validate_shadowed)
  have o: "execution_order (validate_workflow shadowed_nodes []) = [] @ ''a'' # [''c'']"
    by (simp add: validate_shadowed)
  have d: "run_nodes example_services example_clock (node_map_of shadowed_nodes)
      (initial_context example_clock []) [] = (?c, None)"
    by simp
  have m: "map_of (node_map_of shadowed_nodes) ''a'' = Some (shadowed_nodes ! 1)"
    by (rule node_map_shadowed)
  have ty: "ntype (shadowed_nodes ! 1) = LLM_ENGINE"
    by (simp add: shadowed_nodes_def LLM_ENGINE_def)
  have h: "is_valid (validate_workflow shadowed_nodes [])
      \<and> execution_order (validate_workflow shadowed_nodes []) = [] @ ''a'' # [''c'']
      \<and> run_nodes example_services example_clock (node_map_of shadowed_nodes)
           (initial_context example_clock []) [] = (?c, None)
      \<and> map_of (node_map_of shadowed_nodes) ''a'' = Some (shadowed_nodes ! 1)
      \<and> ntype (shadowed_nodes ! 1) = LLM_ENGINE"
    by (intro conjI v o d m ty)
  note r = t[THEN conjunct2, THEN conjunct2, THEN conjunct2, THEN mp, OF h, THEN conjunct2]
  have 3: "execute_workflow example_services example_clock shadowed_nodes [] [] =
       \<lparr>output_of = None, error = Some NoQueryFound,
        execution_log_of =
          \<lparr>steps = [], total_steps = 0, log_execution_time = None,
           log_error = Some NoQueryFound\<rparr>,
        execution_time = 1000, status = ''failed''\<rparr>"
    unfolding r by (simp add: initial_context_def example_clock_def py_int_def)
  show ?thesis by (intro conjI 1 2 v o 3)
qed

text \<open>
  Claim C10. Validation does not check edge endpoints. With the edges \<^verbatim>\<open>1 -> x\<close> and
  \<^verbatim>\<open>x -> y\<close>, where neither \<^verbatim>\<open>x\<close> nor \<^verbatim>\<open>y\<close> is a node, the workflow is reported valid; the
  dangling target \<^verbatim>\<open>x\<close> is in the execution order, enqueued from the adjacency list of
  node \<^verbatim>\<open>1\<close>, while \<^verbatim>\<open>y\<close> is not, the edge leaving the non-node \<^verbatim>\<open>x\<close> being dropped.
  Execution then runs node \<^verbatim>\<open>1\<close>, fails on the lookup of \<^verbatim>\<open>x\<close> in the node map and returns
  status \<^verbatim>\<open>"failed"\<close> with the \<^verbatim>\<open>KeyError\<close>.
\<close>

theorem dangling_target_passes_validation_fails_execution:
  "is_valid (validate_workflow example_nodes dangling_edges)
   \<and> ''x'' \<in> target ` set dangling_edges
   \<and> ''x'' \<notin> nid ` set example_nodes
   \<and> execution_order (validate_workflow example_nodes dangling_edges) = [''1'', ''x'', ''2'', ''3'']
   \<and> ''y'' \<notin> set (execution_order (validate_workflow example_nodes dangling_edges))
   \<and> execute_workflow svc clock example_nodes dangling_edges [(''query'', ''hi'')] =
       \<lparr>output_of = None, error = Some (KeyError ''x''),
        execution_log_of =
          \<lparr>steps = [\<lparr>step_node_id = ''1'', step_node_type = ''input'',
                      step_result = UserQuery ''hi'', step_timestamp = clock 1 - clock 0\<rparr>],
           total_steps = 1, log_execution_time = None, log_error = Some (KeyError ''x'')\<rparr>,
        execution_time = py_int ((clock 2 - clock 0) * 1000),
        status = ''failed''\<rparr>"
proof -
  let ?c1 = "\<lparr>input_data = [(''query'', ''hi'')],
            intermediate_results = [(''1'', UserQuery ''hi'')],
            execution_log =
              [\<lparr>step_node_id = ''1'', step_node_type = ''input'',
                step_result = UserQuery ''hi'', step_timestamp = clock 1 - clock 0\<rparr>],
            start_time = clock 0\<rparr>"
  have v: "is_valid (validate_workflow example_nodes dangling_edges)"
    by (simp add: validate_dangling)
  have x: "''x'' \<in> target ` set dangling_edges" by (simp add: dangling_edges_def edge_def)
  have nx: "''x'' \<notin> nid ` set example_nodes" by (simp add: example_nodes_def)
  have o: "execution_order (validate_workflow example_nodes dangling_edges)
      = [''1'', ''x'', ''2'', ''3'']"
    by (simp add: validate_dangling)
  have y: "''y'' \<notin> set (execution_order (validate_workflow example_nodes dangling_edges))"
    unfolding o by simp
  have o': "execution_order (validate_workflow example_nodes dangling_edges)
      = [''1''] @ ''x'' # [''2'', ''3'']"
    unfolding o by simp
  have d: "run_nodes svc clock (node_map_of example_nodes)
      (initial_context clock [(''query'', ''hi'')]) [''1''] = (?c1, None)"
    by (simp add: run_input_example)
  have f: "run_node svc clock (node_map_of example_nodes) ?c1 ''x'' = Inl (KeyError ''x'')"
    by (rule run_dangling_example)
  note r = execute_workflow_failure[OF v o' d f]
  have e: "execute_workflow svc clock example_nodes dangling_edges [(''query'', ''hi'')] =
       \<lparr>output_of = None, error = Some (KeyError ''x''),
        execution_log_of =
          \<lparr>steps = [\<lparr>step_node_id = ''1'', step_node_type = ''input'',
                      step_result = UserQuery ''hi'', step_timestamp = clock 1 - clock 0\<rparr>],
           total_steps = 1, log_execution_time = None, log_error = Some (KeyError ''x'')\<rparr>,
        execution_time = py_int ((clock 2 - clock 0) * 1000),
        status = ''failed''\<rparr>"
    unfolding r(1) by (simp add: failed_def elapsed_ms_def numeral_2_eq_2)
  show ?thesis by (intro conjI v x nx o y e)
qed

theorem dangling_target_passes_validation_fails_execution_witness:
  "is_valid (validate_workflow example_nodes dangling_edges)
   \<and> execution_order (validate_workflow example_nodes dangling_edges) = [''1'', ''x'', ''2'', ''3'']
   \<and> status (execute_workflow example_services example_clock example_nodes dangling_edges
         [(''query'', ''hi'')]) = ''failed''
   \<and> error (execute_workflow example_services example_clock example_nodes dangling_edges
         [(''query'', ''hi'')]) = Some (KeyError ''x'')
   \<and> execution_time (execute_workflow example_services example_clock example_nodes dangling_edges
         [(''query'', ''hi'')]) = 2000"
proof -
  note t = dangling_target_passes_validation_fails_execution[of example_services example_clock]
  note v = t[THEN conjunct1]
  note o = t[THEN conjunct2, THEN conjunct2, THEN conjunct2, THEN conjunct1]
  note e = t[THEN conjunct2, THEN conjunct2, THEN conjunct2, THEN conjunct2, THEN conjunct2]
  have s: "status (execute_workflow example_services example_clock example_nodes dangling_edges
         [(''query'', ''hi'')]) = ''failed''"
    unfolding e by simp
  have r: "error (execute_workflow example_services example_clock example_nodes dangling_edges
         [(''query'', ''hi'')]) = Some (KeyError ''x'')"
    unfolding e by simp
  have m: "execution_time (execute_workflow example_services example_clock example_nodes
         dangling_edges [(''query'', ''hi'')]) = 2000"
    unfolding e by (simp add: example_clock_def py_int_def)
  show ?thesis by (intro conjI v o s r m)
qed

end
